theory Spec2Isabelle
  imports Main
begin

section \<open>Connector token cache (calendarTools.ts, lines 5-39 and 215-249)\<close>

text \<open>
  The source holds two module-level variables, \<open>calendarConnectionSettings\<close> and
  \<open>gmailConnectionSettings\<close>, and two functions \<open>getCalendarAccessToken\<close> and
  \<open>getGmailAccessToken\<close> that are the same text up to the variable, the connector name in
  the URL and the message of the last \<open>throw\<close>. The model has one function
  \<open>getAccessToken\<close> over the resource family and the two source names as its instances.

  JavaScript values are modelled as follows: an absent property (\<open>undefined\<close>) is
  \<open>None\<close>; a string is a \<open>string\<close>, standing for its UTF-8 bytes; a string is
  truthy iff it is not empty. A thrown value is the \<open>Inl\<close> branch of the result.
\<close>

datatype family = Mail | Calendar

datatype error =
    Error string          \<comment> \<open>\<open>new Error(message)\<close>\<close>
  | TypeError string      \<comment> \<open>reading the named property of \<open>undefined\<close>\<close>
  | ProviderError string  \<comment> \<open>a rejection of \<open>fetch\<close> or of a Google API client call\<close>

text \<open>The connector item, with the properties the code reads.\<close>

record credentials =
  credentials_access_token :: "string option"

record oauth =
  oauth_credentials :: "credentials option"

record settings =
  settings_access_token :: "string option"
  settings_expires_at :: "string option"
  settings_oauth :: "oauth option"

record connection =
  connection_settings :: "settings option"

text \<open>Google API payloads, again with the properties the code reads.\<close>

record message_ref =
  ref_id :: "string option"
  ref_threadId :: "string option"

record header =
  header_name :: "string option"
  header_value :: "string option"

record part_body =
  body_data :: "string option"

text \<open>A part may hold parts of its own; the code reads the type and the body of a part.\<close>

datatype message_part =
  MessagePart (part_mimeType: "string option") (part_body: "part_body option")
    (part_parts: "message_part list option")

record payload =
  payload_headers :: "header list option"
  payload_body :: "part_body option"
  payload_parts :: "message_part list option"

record message =
  message_threadId :: "string option"
  message_snippet :: "string option"
  message_labelIds :: "string list option"
  message_payload :: "payload option"

record label =
  label_id :: "string option"
  label_name :: "string option"

record draft =
  draft_id :: "string option"

record event_time =
  time_dateTime :: "string option"
  time_date :: "string option"
  time_timeZone :: "string option"

record event_body =
  body_summary :: string
  body_description :: "string option"
  body_location :: "string option"
  body_start :: event_time
  body_end :: event_time

record event =
  event_id :: "string option"
  event_htmlLink :: "string option"
  event_summary :: "string option"
  event_start :: "event_time option"
  event_end :: "event_time option"
  event_location :: "string option"

text \<open>
  Everything outside the module: the environment variables, the clock, the connector
  endpoint and the Google API. A remote call either rejects (\<open>Inl\<close>) or resolves to the
  \<open>data\<close> of its response. \<open>fetch_items\<close> is the promise chain
  \<open>fetch(url, {headers}).then(res => res.json()).then(data => data.items)\<close>.
\<close>

record world =
  REPLIT_CONNECTORS_HOSTNAME :: "string option"
  REPL_IDENTITY :: "string option"
  WEB_REPL_RENEWAL :: "string option"
  date_now :: int                             \<comment> \<open>\<open>Date.now()\<close>\<close>
  date_getTime :: "string \<Rightarrow> int option"       \<comment> \<open>\<open>new Date(s).getTime()\<close>, \<open>None\<close> for NaN\<close>
  date_toISOString :: string                  \<comment> \<open>\<open>new Date().toISOString()\<close>\<close>
  fetch_items :: "string \<Rightarrow> string \<Rightarrow> error + connection list option"
  messages_list :: "int \<Rightarrow> string \<Rightarrow> error + message_ref list option"
  messages_get :: "string option \<Rightarrow> string \<Rightarrow> error + message"
  labels_list :: "error + label list option"
  labels_create :: "string \<Rightarrow> string \<Rightarrow> string \<Rightarrow> error + label"
  messages_modify :: "string \<Rightarrow> string list \<Rightarrow> error + unit"
  drafts_create :: "string \<Rightarrow> string \<Rightarrow> error + draft"
  events_insert :: "event_body \<Rightarrow> error + event"
  events_list :: "int \<Rightarrow> string \<Rightarrow> error + event list option"

text \<open>What the module does to the outside, in order.\<close>

datatype api_call =
    MessagesList int string                     \<comment> \<open>maxResults, q\<close>
  | MessagesGet "string option" string          \<comment> \<open>id, format\<close>
  | LabelsList
  | LabelsCreate string string string           \<comment> \<open>name, labelListVisibility, messageListVisibility\<close>
  | MessagesModify string "string list"         \<comment> \<open>id, addLabelIds\<close>
  | DraftsCreate string string                  \<comment> \<open>raw, threadId\<close>
  | EventsInsert event_body
  | EventsList int string                       \<comment> \<open>maxResults, timeMin\<close>

datatype log_entry =
    Info string
  | Warn string error
  | Failed string error                         \<comment> \<open>\<open>logger.error(message, {error})\<close>\<close>

datatype action =
    Fetch string string                         \<comment> \<open>URL, value of the X_REPLIT_TOKEN header\<close>
  | Call api_call
  | Log log_entry

record state =
  calendarConnectionSettings :: "connection option"
  gmailConnectionSettings :: "connection option"
  trace :: "action list"

type_synonym 'a io = "state \<Rightarrow> (error + 'a) \<times> state"

definition connectionSettings :: "family \<Rightarrow> state \<Rightarrow> connection option" where
  "connectionSettings f s =
     (case f of Mail \<Rightarrow> gmailConnectionSettings s | Calendar \<Rightarrow> calendarConnectionSettings s)"

definition set_connectionSettings :: "family \<Rightarrow> connection option \<Rightarrow> state \<Rightarrow> state" where
  "set_connectionSettings f c s =
     (case f of
        Mail \<Rightarrow> s\<lparr>gmailConnectionSettings := c\<rparr>
      | Calendar \<Rightarrow> s\<lparr>calendarConnectionSettings := c\<rparr>)"

definition connector_name :: "family \<Rightarrow> string" where
  "connector_name f = (case f of Mail \<Rightarrow> ''google-mail'' | Calendar \<Rightarrow> ''google-calendar'')"

definition not_connected :: "family \<Rightarrow> error" where
  "not_connected f =
     (case f of
        Mail \<Rightarrow> Error ''Gmail not connected''
      | Calendar \<Rightarrow> Error ''Google Calendar not connected'')"

definition no_identity :: error where
  "no_identity = Error ''X_REPLIT_TOKEN not found for repl/depl''"

text \<open>\<open>truthy x\<close> is the string that \<open>x\<close> holds when \<open>x\<close> is truthy.\<close>

definition truthy :: "string option \<Rightarrow> string option" where
  "truthy x = (case x of None \<Rightarrow> None | Some v \<Rightarrow> if v = [] then None else Some v)"

text \<open>String concatenation with a value that may be \<open>undefined\<close>.\<close>

definition js_string :: "string option \<Rightarrow> string" where
  "js_string x = (case x of None \<Rightarrow> ''undefined'' | Some v \<Rightarrow> v)"

text \<open>
  Line 8 (218): \<open>cs && cs.settings.expires_at && new Date(cs.settings.expires_at).getTime() > Date.now()\<close>.
  Reading \<open>expires_at\<close> of an absent \<open>settings\<close> throws.
\<close>

definition cacheFresh :: "world \<Rightarrow> connection option \<Rightarrow> error + bool" where
  "cacheFresh w cs =
     (case cs of
        None \<Rightarrow> Inr False
      | Some c \<Rightarrow>
          (case connection_settings c of
             None \<Rightarrow> Inl (TypeError ''expires_at'')
           | Some st \<Rightarrow>
               (case truthy (settings_expires_at st) of
                  None \<Rightarrow> Inr False
                | Some e \<Rightarrow>
                    (case date_getTime w e of
                       None \<Rightarrow> Inr False
                     | Some t \<Rightarrow> Inr (date_now w < t)))))"

text \<open>Line 9 (219): \<open>cs.settings.access_token\<close>, read after \<open>cacheFresh\<close> held.\<close>

definition cachedToken :: "connection option \<Rightarrow> string option" where
  "cachedToken cs =
     (case cs of
        None \<Rightarrow> None
      | Some c \<Rightarrow>
          (case connection_settings c of
             None \<Rightarrow> None
           | Some st \<Rightarrow> settings_access_token st))"

text \<open>Lines 13-17 (223-227).\<close>

definition xReplitToken :: "world \<Rightarrow> string option" where
  "xReplitToken w =
     (case truthy (REPL_IDENTITY w) of
        Some r \<Rightarrow> Some (''repl '' @ r)
      | None \<Rightarrow>
          (case truthy (WEB_REPL_RENEWAL w) of
             Some d \<Rightarrow> Some (''depl '' @ d)
           | None \<Rightarrow> None))"

definition connection_url :: "world \<Rightarrow> family \<Rightarrow> string" where
  "connection_url w f =
     ''https://'' @ js_string (REPLIT_CONNECTORS_HOSTNAME w)
       @ ''/api/v2/connection?include_secrets=true&connector_names='' @ connector_name f"

text \<open>Line 31 (241): \<open>data.items?.[0]\<close>.\<close>

definition first_item :: "connection list option \<Rightarrow> connection option" where
  "first_item items =
     (case items of None \<Rightarrow> None | Some [] \<Rightarrow> None | Some (c # _) \<Rightarrow> Some c)"

text \<open>
  Line 33 (243):
  \<open>cs?.settings?.access_token || cs.settings?.oauth?.credentials?.access_token\<close>.
  The right operand is evaluated when the left one is falsy, and reads \<open>cs.settings\<close>
  with no guard on \<open>cs\<close>.
\<close>

definition nestedToken :: "connection \<Rightarrow> string option" where
  "nestedToken c =
     (case connection_settings c of
        None \<Rightarrow> None
      | Some st \<Rightarrow>
          (case settings_oauth st of
             None \<Rightarrow> None
           | Some oa \<Rightarrow>
               (case oauth_credentials oa of
                  None \<Rightarrow> None
                | Some cr \<Rightarrow> credentials_access_token cr)))"

definition extractAccessToken :: "connection option \<Rightarrow> error + string option" where
  "extractAccessToken cs =
     (case truthy (cachedToken cs) of
        Some a \<Rightarrow> Inr (Some a)
      | None \<Rightarrow>
          (case cs of
             None \<Rightarrow> Inl (TypeError ''settings'')
           | Some c \<Rightarrow> Inr (nestedToken c)))"

text \<open>Lines 12-38 (222-248): the path taken when the cached record is not fresh.\<close>

definition fetchAccessToken :: "world \<Rightarrow> family \<Rightarrow> string option io" where
  "fetchAccessToken w f s =
     (case xReplitToken w of
        None \<Rightarrow> (Inl no_identity, s)
      | Some tok \<Rightarrow>
          (let s1 = s\<lparr>trace := trace s @ [Fetch (connection_url w f) tok]\<rparr> in
           case fetch_items w (connection_url w f) tok of
             Inl e \<Rightarrow> (Inl e, s1)
           | Inr items \<Rightarrow>
               (let cs = first_item items;
                    s2 = set_connectionSettings f cs s1 in
                case extractAccessToken cs of
                  Inl e \<Rightarrow> (Inl e, s2)
                | Inr accessToken \<Rightarrow>
                    if cs = None \<or> truthy accessToken = None
                    then (Inl (not_connected f), s2)
                    else (Inr accessToken, s2))))"

definition getAccessToken :: "world \<Rightarrow> family \<Rightarrow> string option io" where
  "getAccessToken w f s =
     (case cacheFresh w (connectionSettings f s) of
        Inl e \<Rightarrow> (Inl e, s)
      | Inr fresh \<Rightarrow>
          if fresh then (Inr (cachedToken (connectionSettings f s)), s)
          else fetchAccessToken w f s)"

definition getGmailAccessToken :: "world \<Rightarrow> string option io" where
  "getGmailAccessToken w = getAccessToken w Mail"

definition getCalendarAccessToken :: "world \<Rightarrow> string option io" where
  "getCalendarAccessToken w = getAccessToken w Calendar"

text \<open>The number of network fetches a trace records.\<close>

fun is_fetch :: "action \<Rightarrow> bool" where
  "is_fetch (Fetch _ _) = True"
| "is_fetch _ = False"

definition fetches :: "state \<Rightarrow> nat" where
  "fetches s = length (filter is_fetch (trace s))"

section \<open>Calls, logging and \<open>try\<close>/\<open>catch\<close>\<close>

definition succeed :: "'a \<Rightarrow> 'a io" where
  "succeed v s = (Inr v, s)"

definition andThen :: "'a io \<Rightarrow> ('a \<Rightarrow> 'b io) \<Rightarrow> 'b io" where
  "andThen m k s = (case m s of (Inl e, s1) \<Rightarrow> (Inl e, s1) | (Inr v, s1) \<Rightarrow> k v s1)"

text \<open>
  \<open>logger?.info(...)\<close> and its siblings: \<open>lg\<close> tells whether \<open>mastra?.getLogger()\<close>
  gave a logger. The messages are the source's without their leading emoji; of the
  metadata object only the error is kept.
\<close>

definition logger :: "bool \<Rightarrow> log_entry \<Rightarrow> state \<Rightarrow> state" where
  "logger lg e s = (if lg then s\<lparr>trace := trace s @ [Log e]\<rparr> else s)"

definition tell :: "bool \<Rightarrow> log_entry \<Rightarrow> unit io" where
  "tell lg e s = (Inr (), logger lg e s)"

text \<open>An awaited client call: it is recorded, then rejects or resolves.\<close>

definition call :: "api_call \<Rightarrow> error + 'a \<Rightarrow> 'a io" where
  "call c r s = (r, s\<lparr>trace := trace s @ [Call c]\<rparr>)"

text \<open>\<open>try { m } catch (error) { logger?.error(msg, { error }); throw error; }\<close>\<close>

definition tryCatch :: "bool \<Rightarrow> string \<Rightarrow> 'a io \<Rightarrow> 'a io" where
  "tryCatch lg msg m s =
     (case m s of
        (Inl e, s1) \<Rightarrow> (Inl e, logger lg (Failed msg e) s1)
      | (Inr v, s1) \<Rightarrow> (Inr v, s1))"

text \<open>\<open>x || d\<close> on strings.\<close>

definition or_else :: "string option \<Rightarrow> string \<Rightarrow> string" where
  "or_else x d = (case truthy x of None \<Rightarrow> d | Some v \<Rightarrow> v)"

text \<open>Decimal rendering of a count inside a template string.\<close>

fun show_nat :: "nat \<Rightarrow> string" where
  "show_nat n =
     (if n < 10 then [char_of (48 + n)]
      else show_nat (n div 10) @ [char_of (48 + n mod 10)])"

section \<open>Client factories (lines 41-46 and 251-256)\<close>

record client =
  client_version :: string
  client_access_token :: "string option"

definition getCalendarClient :: "world \<Rightarrow> client io" where
  "getCalendarClient w =
     andThen (getCalendarAccessToken w) (\<lambda>accessToken.
       succeed \<lparr>client_version = ''v3'', client_access_token = accessToken\<rparr>)"

definition getGmailClient :: "world \<Rightarrow> client io" where
  "getGmailClient w =
     andThen (getGmailAccessToken w) (\<lambda>accessToken.
       succeed \<lparr>client_version = ''v1'', client_access_token = accessToken\<rparr>)"

section \<open>Calendar tools (lines 48-210)\<close>

record create_event_input =
  ce_summary :: string
  ce_description :: "string option"
  ce_location :: "string option"
  ce_startDateTime :: string
  ce_endDateTime :: string
  ce_timeZone :: "string option"
  ce_allDay :: bool

record create_event_output =
  ceo_eventId :: "string option"
  ceo_htmlLink :: "string option"
  ceo_summary :: string
  ceo_success :: bool

text \<open>\<open>s.split("T")[0]\<close>\<close>

definition before_T :: "string \<Rightarrow> string" where
  "before_T s = takeWhile (\<lambda>c. c \<noteq> CHR ''T'') s"

definition event_times :: "create_event_input \<Rightarrow> event_time \<times> event_time" where
  "event_times ctx =
     (if ce_allDay ctx
      then (\<lparr>time_dateTime = None, time_date = Some (before_T (ce_startDateTime ctx)),
              time_timeZone = None\<rparr>,
            \<lparr>time_dateTime = None, time_date = Some (before_T (ce_endDateTime ctx)),
              time_timeZone = None\<rparr>)
      else (\<lparr>time_dateTime = Some (ce_startDateTime ctx), time_date = None,
              time_timeZone = Some (or_else (ce_timeZone ctx) ''America/Phoenix'')\<rparr>,
            \<lparr>time_dateTime = Some (ce_endDateTime ctx), time_date = None,
              time_timeZone = Some (or_else (ce_timeZone ctx) ''America/Phoenix'')\<rparr>))"

definition createCalendarEvent_request :: "create_event_input \<Rightarrow> event_body" where
  "createCalendarEvent_request ctx =
     \<lparr>body_summary = ce_summary ctx, body_description = ce_description ctx,
      body_location = ce_location ctx,
      body_start = fst (event_times ctx), body_end = snd (event_times ctx)\<rparr>"

definition createCalendarEventTool ::
  "world \<Rightarrow> bool \<Rightarrow> create_event_input \<Rightarrow> create_event_output io" where
  "createCalendarEventTool w lg ctx =
     andThen (tell lg (Info ''[createCalendarEventTool] Creating calendar event'')) (\<lambda>_.
     tryCatch lg ''[createCalendarEventTool] Failed to create event''
       (andThen (getCalendarClient w) (\<lambda>calendar.
        andThen (call (EventsInsert (createCalendarEvent_request ctx))
                   (events_insert w (createCalendarEvent_request ctx))) (\<lambda>ev.
        andThen (tell lg (Info ''[createCalendarEventTool] Calendar event created'')) (\<lambda>_.
        succeed \<lparr>ceo_eventId = event_id ev, ceo_htmlLink = event_htmlLink ev,
                 ceo_summary = ce_summary ctx, ceo_success = True\<rparr>)))))"

record list_events_input =
  le_maxResults :: "int option"
  le_timeMin :: "string option"

record event_summary =
  es_id :: "string option"
  es_summary :: string
  es_start :: string
  es_end :: string
  es_location :: "string option"

record list_events_output =
  leo_events :: "event_summary list"
  leo_totalCount :: nat

text \<open>\<open>n || 50\<close> on numbers: an absent cap and the cap \<open>0\<close> both give 50.\<close>

definition cap_or_50 :: "int option \<Rightarrow> int" where
  "cap_or_50 n = (case n of None \<Rightarrow> 50 | Some k \<Rightarrow> if k = 0 then 50 else k)"

text \<open>\<open>t?.dateTime || t?.date || ""\<close>\<close>

definition time_string :: "event_time option \<Rightarrow> string" where
  "time_string t =
     (case t of
        None \<Rightarrow> []
      | Some u \<Rightarrow>
          (case truthy (time_dateTime u) of
             Some d \<Rightarrow> d
           | None \<Rightarrow> or_else (time_date u) []))"

definition summarize_event :: "event \<Rightarrow> event_summary" where
  "summarize_event ev =
     \<lparr>es_id = event_id ev,
      es_summary = or_else (event_summary ev) ''(No Title)'',
      es_start = time_string (event_start ev),
      es_end = time_string (event_end ev),
      es_location = truthy (event_location ev)\<rparr>"

definition items_or_empty :: "'a list option \<Rightarrow> 'a list" where
  "items_or_empty xs = (case xs of None \<Rightarrow> [] | Some ys \<Rightarrow> ys)"

definition listUpcomingEventsTool ::
  "world \<Rightarrow> bool \<Rightarrow> list_events_input \<Rightarrow> list_events_output io" where
  "listUpcomingEventsTool w lg ctx =
     andThen (tell lg (Info ''[listUpcomingEventsTool] Listing upcoming events'')) (\<lambda>_.
     tryCatch lg ''[listUpcomingEventsTool] Failed to list events''
       (andThen (getCalendarClient w) (\<lambda>calendar.
        andThen (call (EventsList (cap_or_50 (le_maxResults ctx))
                         (or_else (le_timeMin ctx) (date_toISOString w)))
                   (events_list w (cap_or_50 (le_maxResults ctx))
                         (or_else (le_timeMin ctx) (date_toISOString w)))) (\<lambda>items.
        let events = map summarize_event (items_or_empty items) in
        andThen (tell lg (Info (''[listUpcomingEventsTool] Found '' @ show_nat (length events)
                                  @ '' upcoming events''))) (\<lambda>_.
        succeed \<lparr>leo_events = events, leo_totalCount = length events\<rparr>)))))"

section \<open>The base64 codec of \<open>Buffer\<close>\<close>

text \<open>
  \<open>Buffer.from(s).toString("base64")\<close> is RFC 4648 base64 of the UTF-8 bytes of \<open>s\<close>,
  with padding. \<open>Buffer.from(d, "base64")\<close>, here \<open>from_base64\<close>, gives the bytes: it
  accepts the standard and the URL-safe alphabet, skips the characters of neither, stops at
  the first \<open>=\<close> and does not ask for padding. \<open>buf.toString("utf-8")\<close>, here
  \<open>toString_utf8\<close>, decodes the bytes: a well-formed sequence gives the character it
  encodes, and each maximal ill-formed run gives U+FFFD, which a string standing for its
  UTF-8 bytes holds as EF BF BD.
\<close>

definition b64_alphabet :: string where
  "b64_alphabet = ''ABCDEFGHIJKLMNOPQRSTUVWXYZabcdefghijklmnopqrstuvwxyz0123456789+/''"

definition b64_char :: "nat \<Rightarrow> char" where
  "b64_char n = b64_alphabet ! n"

fun index_of :: "char \<Rightarrow> string \<Rightarrow> nat option" where
  "index_of c [] = None"
| "index_of c (x # xs) =
     (if c = x then Some 0 else (case index_of c xs of None \<Rightarrow> None | Some i \<Rightarrow> Some (Suc i)))"

definition b64_value :: "char \<Rightarrow> nat option" where
  "b64_value c =
     (if c = CHR ''-'' then Some 62
      else if c = CHR ''_'' then Some 63
      else index_of c b64_alphabet)"

fun encode_groups :: "nat list \<Rightarrow> string" where
  "encode_groups (x # y # z # r) =
     b64_char (x div 4) # b64_char ((x mod 4) * 16 + y div 16)
       # b64_char ((y mod 16) * 4 + z div 64) # b64_char (z mod 64) # encode_groups r"
| "encode_groups [x, y] =
     [b64_char (x div 4), b64_char ((x mod 4) * 16 + y div 16), b64_char ((y mod 16) * 4),
      CHR ''='']"
| "encode_groups [x] = [b64_char (x div 4), b64_char ((x mod 4) * 16), CHR ''='', CHR ''='']"
| "encode_groups [] = []"

definition toString_base64 :: "string \<Rightarrow> string" where
  "toString_base64 s = encode_groups (map of_char s)"

fun decode_groups :: "nat list \<Rightarrow> nat list" where
  "decode_groups (a # b # c # d # r) =
     (a * 4 + b div 16) # ((b mod 16) * 16 + c div 4) # ((c mod 4) * 64 + d) # decode_groups r"
| "decode_groups [a, b, c] = [a * 4 + b div 16, (b mod 16) * 16 + c div 4]"
| "decode_groups [a, b] = [a * 4 + b div 16]"
| "decode_groups _ = []"

definition from_base64 :: "string \<Rightarrow> string" where
  "from_base64 d =
     map char_of
       (decode_groups (List.map_filter b64_value (takeWhile (\<lambda>c. c \<noteq> CHR ''='') d)))"

text \<open>
  The UTF-8 decoder, as a state machine over the bytes: \<open>seen\<close> are the bytes of the
  character under way, \<open>needed\<close> the number of bytes it still lacks, \<open>lower\<close> and
  \<open>upper\<close> the bounds of its next byte. A byte that cannot continue the character ends it
  with a replacement and is read again as the start of the next one.
\<close>

definition replacement :: "nat list" where
  "replacement = [0xEF, 0xBF, 0xBD]"

fun utf8_decode :: "nat list \<Rightarrow> nat \<Rightarrow> nat \<Rightarrow> nat \<Rightarrow> nat list \<Rightarrow> nat list" where
  "utf8_decode seen needed lower upper [] = (if needed = 0 then [] else replacement)"
| "utf8_decode seen needed lower upper (b # bs) =
     (if needed = 0 then
        (if b < 0x80 then b # utf8_decode [] 0 0x80 0xBF bs
         else if 0xC2 \<le> b \<and> b \<le> 0xDF then utf8_decode [b] 1 0x80 0xBF bs
         else if 0xE0 \<le> b \<and> b \<le> 0xEF then
           utf8_decode [b] 2 (if b = 0xE0 then 0xA0 else 0x80) (if b = 0xED then 0x9F else 0xBF) bs
         else if 0xF0 \<le> b \<and> b \<le> 0xF4 then
           utf8_decode [b] 3 (if b = 0xF0 then 0x90 else 0x80) (if b = 0xF4 then 0x8F else 0xBF) bs
         else replacement @ utf8_decode [] 0 0x80 0xBF bs)
      else if lower \<le> b \<and> b \<le> upper then
        (if needed = 1 then seen @ [b] @ utf8_decode [] 0 0x80 0xBF bs
         else utf8_decode (seen @ [b]) (needed - 1) 0x80 0xBF bs)
      else replacement @ utf8_decode [] 0 0x80 0xBF (b # bs))"

definition toString_utf8 :: "string \<Rightarrow> string" where
  "toString_utf8 s = map char_of (utf8_decode [] 0 0x80 0xBF (map of_char s))"

text \<open>Well-formed UTF-8 byte sequences (the Unicode Standard, table 3-7).\<close>

definition continuation :: "nat \<Rightarrow> bool" where
  "continuation c = (0x80 \<le> c \<and> c \<le> 0xBF)"

fun wellformed_bytes :: "nat list \<Rightarrow> bool" where
  "wellformed_bytes [] = True"
| "wellformed_bytes (b # bs) =
     (if b < 0x80 then wellformed_bytes bs
      else if 0xC2 \<le> b \<and> b \<le> 0xDF then
        (case bs of c1 # r \<Rightarrow> continuation c1 \<and> wellformed_bytes r | _ \<Rightarrow> False)
      else if 0xE0 \<le> b \<and> b \<le> 0xEF then
        (case bs of
           c1 # c2 # r \<Rightarrow>
             (if b = 0xE0 then 0xA0 else 0x80) \<le> c1 \<and> c1 \<le> (if b = 0xED then 0x9F else 0xBF)
               \<and> continuation c2 \<and> wellformed_bytes r
         | _ \<Rightarrow> False)
      else if 0xF0 \<le> b \<and> b \<le> 0xF4 then
        (case bs of
           c1 # c2 # c3 # r \<Rightarrow>
             (if b = 0xF0 then 0x90 else 0x80) \<le> c1 \<and> c1 \<le> (if b = 0xF4 then 0x8F else 0xBF)
               \<and> continuation c2 \<and> continuation c3 \<and> wellformed_bytes r
         | _ \<Rightarrow> False)
      else False)"

definition wellformed_utf8 :: "string \<Rightarrow> bool" where
  "wellformed_utf8 s = wellformed_bytes (map of_char s)"

text \<open>
  Lines 575-579:
  \<open>.toString("base64").replace(/\+/g, "-").replace(/\//g, "_").replace(/=+$/, "")\<close>
\<close>

definition replace_char :: "char \<Rightarrow> char \<Rightarrow> char \<Rightarrow> char" where
  "replace_char a b c = (if c = a then b else c)"

definition replace_all :: "char \<Rightarrow> char \<Rightarrow> string \<Rightarrow> string" where
  "replace_all a b s = map (replace_char a b) s"

definition strip_trailing :: "char \<Rightarrow> string \<Rightarrow> string" where
  "strip_trailing x s = rev (dropWhile (\<lambda>c. c = x) (rev s))"

definition base64url :: "string \<Rightarrow> string" where
  "base64url s =
     strip_trailing (CHR ''='')
       (replace_all (CHR ''/'') (CHR ''_'')
         (replace_all (CHR ''+'') (CHR ''-'') (toString_base64 s)))"

text \<open>The 6-bit groups and the number of padding characters of a byte sequence.\<close>

fun sextets :: "nat list \<Rightarrow> nat list" where
  "sextets (x # y # z # r) =
     x div 4 # ((x mod 4) * 16 + y div 16) # ((y mod 16) * 4 + z div 64) # z mod 64 # sextets r"
| "sextets [x, y] = [x div 4, (x mod 4) * 16 + y div 16, (y mod 16) * 4]"
| "sextets [x] = [x div 4, (x mod 4) * 16]"
| "sextets [] = []"

fun padding :: "nat list \<Rightarrow> nat" where
  "padding (x # y # z # r) = padding r"
| "padding [x, y] = 1"
| "padding [x] = 2"
| "padding [] = 0"

definition url_char :: "nat \<Rightarrow> char" where
  "url_char n = replace_char (CHR ''/'') (CHR ''_'') (replace_char (CHR ''+'') (CHR ''-'') (b64_char n))"

section \<open>Mail tools (lines 258-606)\<close>

text \<open>\<open>headers.find((h) => h.name === n)?.value\<close>\<close>

definition find_header :: "header list \<Rightarrow> string \<Rightarrow> string option" where
  "find_header hs n =
     (case find (\<lambda>h. header_name h = Some n) hs of None \<Rightarrow> None | Some h \<Rightarrow> header_value h)"

text \<open>\<open>data.payload?.headers || []\<close>\<close>

definition headers_of :: "message \<Rightarrow> header list" where
  "headers_of m =
     (case message_payload m of None \<Rightarrow> [] | Some p \<Rightarrow> items_or_empty (payload_headers p))"

record list_emails_input =
  li_maxResults :: "int option"
  li_query :: "string option"

record email_summary =
  em_id :: "string option"
  em_threadId :: "string option"
  em_subject :: string
  em_from :: string
  em_date :: string
  em_snippet :: string
  em_labels :: "string list"

record list_emails_output =
  lio_emails :: "email_summary list"
  lio_totalCount :: nat

definition summarize_email :: "message_ref \<Rightarrow> message \<Rightarrow> email_summary" where
  "summarize_email m emailData =
     \<lparr>em_id = ref_id m, em_threadId = ref_threadId m,
      em_subject = or_else (find_header (headers_of emailData) ''Subject'') ''(No Subject)'',
      em_from = or_else (find_header (headers_of emailData) ''From'') ''Unknown'',
      em_date = or_else (find_header (headers_of emailData) ''Date'') [],
      em_snippet = or_else (message_snippet emailData) [],
      em_labels = items_or_empty (message_labelIds emailData)\<rparr>"

text \<open>
  Lines 308-337: the loop over the listed messages, with its own \<open>try\<close>/\<open>catch\<close> that
  warns and goes on to the next message.
\<close>

fun collectEmails ::
  "world \<Rightarrow> bool \<Rightarrow> message_ref list \<Rightarrow> email_summary list \<Rightarrow> state
     \<Rightarrow> email_summary list \<times> state" where
  "collectEmails w lg [] emails s = (emails, s)"
| "collectEmails w lg (m # ms) emails s =
     (case call (MessagesGet (ref_id m) ''metadata'') (messages_get w (ref_id m) ''metadata'') s of
        (Inl err, s1) \<Rightarrow>
          collectEmails w lg ms emails
            (logger lg (Warn (''[listEmailsTool] Failed to fetch email '' @ js_string (ref_id m))
                          err) s1)
      | (Inr emailData, s1) \<Rightarrow>
          collectEmails w lg ms (emails @ [summarize_email m emailData]) s1)"

definition listEmailsTool ::
  "world \<Rightarrow> bool \<Rightarrow> list_emails_input \<Rightarrow> list_emails_output io" where
  "listEmailsTool w lg ctx =
     andThen (tell lg (Info ''[listEmailsTool] Starting email retrieval'')) (\<lambda>_.
     tryCatch lg ''[listEmailsTool] Failed to list emails''
       (andThen (getGmailClient w) (\<lambda>gmail.
        andThen (call (MessagesList (cap_or_50 (li_maxResults ctx)) (or_else (li_query ctx) []))
                   (messages_list w (cap_or_50 (li_maxResults ctx))
                      (or_else (li_query ctx) []))) (\<lambda>listed.
        let messages = items_or_empty listed in
        andThen (tell lg (Info (''[listEmailsTool] Found '' @ show_nat (length messages)
                                  @ '' emails''))) (\<lambda>_.
        (\<lambda>s. case collectEmails w lg messages [] s of
                (emails, s1) \<Rightarrow>
                  andThen (tell lg (Info (''[listEmailsTool] Successfully retrieved ''
                                            @ show_nat (length emails) @ '' emails''))) (\<lambda>_.
                  succeed \<lparr>lio_emails = emails, lio_totalCount = length emails\<rparr>) s1))))))"

record email_content =
  ec_id :: string
  ec_threadId :: "string option"
  ec_subject :: string
  ec_from :: string
  ec_to :: string
  ec_date :: string
  ec_body :: string
  ec_labels :: "string list"

text \<open>Lines 393, 397 and 400: \<open>Buffer.from(data, "base64").toString("utf-8")\<close>\<close>

definition decodeBody :: "string \<Rightarrow> string" where
  "decodeBody d = toString_utf8 (from_base64 d)"

text \<open>\<open>x?.body?.data\<close>, kept when truthy.\<close>

definition data_of :: "part_body option \<Rightarrow> string option" where
  "data_of b = (case b of None \<Rightarrow> None | Some d \<Rightarrow> truthy (body_data d))"

text \<open>
  Lines 395-402: the loop over \<open>payload.parts\<close>; \<open>body\<close> is the variable it assigns.
\<close>

fun scanParts :: "message_part list \<Rightarrow> string \<Rightarrow> string" where
  "scanParts [] body = body"
| "scanParts (part # parts) body =
     (if part_mimeType part = Some ''text/plain'' \<and> data_of (part_body part) \<noteq> None
      then decodeBody (js_string (data_of (part_body part)))
      else if part_mimeType part = Some ''text/html'' \<and> data_of (part_body part) \<noteq> None
      then scanParts parts (decodeBody (js_string (data_of (part_body part))))
      else scanParts parts body)"

text \<open>Lines 389-403.\<close>

definition extractBody :: "payload option \<Rightarrow> string" where
  "extractBody p =
     (case p of
        None \<Rightarrow> []
      | Some pl \<Rightarrow>
          (case data_of (payload_body pl) of
             Some d \<Rightarrow> decodeBody d
           | None \<Rightarrow>
               (case payload_parts pl of
                  None \<Rightarrow> []
                | Some parts \<Rightarrow> scanParts parts [])))"

definition getEmailContentTool :: "world \<Rightarrow> bool \<Rightarrow> string \<Rightarrow> email_content io" where
  "getEmailContentTool w lg emailId =
     andThen (tell lg (Info ''[getEmailContentTool] Fetching email content'')) (\<lambda>_.
     tryCatch lg ''[getEmailContentTool] Failed to get email content''
       (andThen (getGmailClient w) (\<lambda>gmail.
        andThen (call (MessagesGet (Some emailId) ''full'')
                   (messages_get w (Some emailId) ''full'')) (\<lambda>emailData.
        andThen (tell lg (Info ''[getEmailContentTool] Successfully retrieved email content''))
          (\<lambda>_.
        succeed
          \<lparr>ec_id = emailId, ec_threadId = message_threadId emailData,
           ec_subject = or_else (find_header (headers_of emailData) ''Subject'') ''(No Subject)'',
           ec_from = or_else (find_header (headers_of emailData) ''From'') ''Unknown'',
           ec_to = or_else (find_header (headers_of emailData) ''To'') [],
           ec_date = or_else (find_header (headers_of emailData) ''Date'') [],
           ec_body = extractBody (message_payload emailData),
           ec_labels = items_or_empty (message_labelIds emailData)\<rparr>)))))"

record label_output =
  lo_labelId :: "string option"
  lo_labelName :: string
  lo_created :: bool

text \<open>\<open>data.labels?.find((l) => l.name === labelName)\<close>\<close>

definition existingLabel :: "label list option \<Rightarrow> string \<Rightarrow> label option" where
  "existingLabel labels labelName =
     (case labels of None \<Rightarrow> None | Some ls \<Rightarrow> find (\<lambda>l. label_name l = Some labelName) ls)"

definition createOrGetLabelTool :: "world \<Rightarrow> bool \<Rightarrow> string \<Rightarrow> label_output io" where
  "createOrGetLabelTool w lg labelName =
     andThen (tell lg (Info ''[createOrGetLabelTool] Creating/getting label'')) (\<lambda>_.
     tryCatch lg ''[createOrGetLabelTool] Failed to create/get label''
       (andThen (getGmailClient w) (\<lambda>gmail.
        andThen (call LabelsList (labels_list w)) (\<lambda>labels.
        case existingLabel labels labelName of
          Some l \<Rightarrow>
            andThen (tell lg (Info ''[createOrGetLabelTool] Label already exists'')) (\<lambda>_.
            succeed \<lparr>lo_labelId = label_id l, lo_labelName = labelName, lo_created = False\<rparr>)
        | None \<Rightarrow>
            andThen (call (LabelsCreate labelName ''labelShow'' ''show'')
                       (labels_create w labelName ''labelShow'' ''show'')) (\<lambda>created.
            andThen (tell lg (Info ''[createOrGetLabelTool] Label created'')) (\<lambda>_.
            succeed \<lparr>lo_labelId = label_id created, lo_labelName = labelName,
                     lo_created = True\<rparr>))))))"

record add_label_output =
  al_success :: bool
  al_emailId :: string
  al_labelId :: string

definition addLabelToEmailTool :: "world \<Rightarrow> bool \<Rightarrow> string \<Rightarrow> string \<Rightarrow> add_label_output io" where
  "addLabelToEmailTool w lg emailId labelId =
     andThen (tell lg (Info ''[addLabelToEmailTool] Adding label to email'')) (\<lambda>_.
     tryCatch lg ''[addLabelToEmailTool] Failed to add label''
       (andThen (getGmailClient w) (\<lambda>gmail.
        andThen (call (MessagesModify emailId [labelId]) (messages_modify w emailId [labelId]))
          (\<lambda>_.
        andThen (tell lg (Info ''[addLabelToEmailTool] Label added successfully'')) (\<lambda>_.
        succeed \<lparr>al_success = True, al_emailId = emailId, al_labelId = labelId\<rparr>)))))"

record draft_input =
  dr_threadId :: string
  dr_to :: string
  dr_subject :: string
  dr_body :: string
  dr_inReplyTo :: "string option"

record draft_output =
  dro_draftId :: "string option"
  dro_threadId :: string
  dro_success :: bool

text \<open>\<open>Array.prototype.join\<close>\<close>

fun join :: "string \<Rightarrow> string list \<Rightarrow> string" where
  "join sep [] = []"
| "join sep [x] = x"
| "join sep (x # y # r) = x @ sep @ join sep (y # r)"

definition CRLF :: string where
  "CRLF = [CHR 0x0D, CHR 0x0A]"

text \<open>Lines 564-571: the array literal, before \<open>.filter(Boolean)\<close>.\<close>

definition messageLines :: "draft_input \<Rightarrow> string list" where
  "messageLines ctx =
     [''To: '' @ dr_to ctx,
      ''Subject: '' @ dr_subject ctx,
      ''Content-Type: text/plain; charset=utf-8'',
      (case truthy (dr_inReplyTo ctx) of Some r \<Rightarrow> ''In-Reply-To: '' @ r | None \<Rightarrow> []),
      [],
      dr_body ctx]"

text \<open>Lines 564-573.\<close>

definition rawMessage :: "draft_input \<Rightarrow> string" where
  "rawMessage ctx = join CRLF (filter (\<lambda>l. l \<noteq> []) (messageLines ctx))"

definition encodedMessage :: "draft_input \<Rightarrow> string" where
  "encodedMessage ctx = base64url (rawMessage ctx)"

definition createDraftReplyTool :: "world \<Rightarrow> bool \<Rightarrow> draft_input \<Rightarrow> draft_output io" where
  "createDraftReplyTool w lg ctx =
     andThen (tell lg (Info ''[createDraftReplyTool] Creating draft reply'')) (\<lambda>_.
     tryCatch lg ''[createDraftReplyTool] Failed to create draft''
       (andThen (getGmailClient w) (\<lambda>gmail.
        andThen (call (DraftsCreate (encodedMessage ctx) (dr_threadId ctx))
                   (drafts_create w (encodedMessage ctx) (dr_threadId ctx))) (\<lambda>d.
        andThen (tell lg (Info ''[createDraftReplyTool] Draft created successfully'')) (\<lambda>_.
        succeed \<lparr>dro_draftId = draft_id d, dro_threadId = dr_threadId ctx,
                 dro_success = True\<rparr>)))))"

section \<open>Observations on a trace\<close>

fun calls_of :: "action list \<Rightarrow> api_call list" where
  "calls_of [] = []"
| "calls_of (Call c # as) = c # calls_of as"
| "calls_of (_ # as) = calls_of as"

definition calls :: "state \<Rightarrow> api_call list" where
  "calls s = calls_of (trace s)"

text \<open>
  \<open>rethrown lg msg e r\<close>: the outcome \<open>r\<close> of a tool is the failure \<open>e\<close>, and where
  there is a logger the last thing the tool did was to log \<open>e\<close> under \<open>msg\<close>.
\<close>

definition rethrown :: "bool \<Rightarrow> string \<Rightarrow> error \<Rightarrow> (error + 'a) \<times> state \<Rightarrow> bool" where
  "rethrown lg msg e r =
     (fst r = Inl e \<and>
      (lg \<longrightarrow> trace (snd r) \<noteq> [] \<and> last (trace (snd r)) = Log (Failed msg e)))"

text \<open>The header lines of a draft, joined: what precedes the body in the raw message.\<close>

definition headerBlock :: "draft_input \<Rightarrow> string" where
  "headerBlock ctx =
     ''To: '' @ dr_to ctx @ CRLF @ ''Subject: '' @ dr_subject ctx @ CRLF
       @ ''Content-Type: text/plain; charset=utf-8''
       @ (case truthy (dr_inReplyTo ctx) of Some r \<Rightarrow> CRLF @ ''In-Reply-To: '' @ r | None \<Rightarrow> [])"

text \<open>
  The summaries of the listed messages whose metadata request resolves, in the order of
  the list.
\<close>

definition retrieved :: "world \<Rightarrow> message_ref list \<Rightarrow> email_summary list" where
  "retrieved w ms =
     List.map_filter
       (\<lambda>m. case messages_get w (ref_id m) ''metadata'' of
               Inl err \<Rightarrow> None
             | Inr emailData \<Rightarrow> Some (summarize_email m emailData)) ms"

text \<open>The text a tool returns as \<open>body\<close>, when it returns.\<close>

definition returned_body :: "(error + email_content) \<times> state \<Rightarrow> string option" where
  "returned_body r = (case fst r of Inl e \<Rightarrow> None | Inr out \<Rightarrow> Some (ec_body out))"

section \<open>Concrete inputs\<close>

definition example_getTime :: "string \<Rightarrow> int option" where
  "example_getTime s =
     (if s = ''2099-01-01T00:00:00.000Z'' then Some 4070908800000
      else if s = ''2020-01-01T00:00:00.000Z'' then Some 1577836800000
      else None)"

text \<open>A world whose every remote call rejects.\<close>

definition offline :: world where
  "offline =
     \<lparr>REPLIT_CONNECTORS_HOSTNAME = Some ''connectors.example.com'',
      REPL_IDENTITY = Some ''identity'',
      WEB_REPL_RENEWAL = None,
      date_now = 1793577600000,
      date_getTime = example_getTime,
      date_toISOString = ''2026-11-02T00:00:00.000Z'',
      fetch_items = (\<lambda>url tok. Inl (ProviderError ''fetch failed'')),
      messages_list = (\<lambda>n q. Inl (ProviderError ''messages.list'')),
      messages_get = (\<lambda>i f. Inl (ProviderError ''messages.get'')),
      labels_list = Inl (ProviderError ''labels.list''),
      labels_create = (\<lambda>n l m. Inl (ProviderError ''labels.create'')),
      messages_modify = (\<lambda>i ls. Inl (ProviderError ''messages.modify'')),
      drafts_create = (\<lambda>r t. Inl (ProviderError ''drafts.create'')),
      events_insert = (\<lambda>b. Inl (ProviderError ''events.insert'')),
      events_list = (\<lambda>n t. Inl (ProviderError ''events.list''))\<rparr>"

definition item_direct :: connection where
  "item_direct =
     \<lparr>connection_settings = Some
        \<lparr>settings_access_token = Some ''A'',
         settings_expires_at = Some ''2099-01-01T00:00:00.000Z'',
         settings_oauth = None\<rparr>\<rparr>"

definition item_nested :: connection where
  "item_nested =
     \<lparr>connection_settings = Some
        \<lparr>settings_access_token = None,
         settings_expires_at = Some ''2099-01-01T00:00:00.000Z'',
         settings_oauth = Some
           \<lparr>oauth_credentials = Some \<lparr>credentials_access_token = Some ''B''\<rparr>\<rparr>\<rparr>\<rparr>"

definition item_no_expiry :: connection where
  "item_no_expiry =
     \<lparr>connection_settings = Some
        \<lparr>settings_access_token = Some ''A'',
         settings_expires_at = None,
         settings_oauth = None\<rparr>\<rparr>"

definition item_tokenless :: connection where
  "item_tokenless =
     \<lparr>connection_settings = Some
        \<lparr>settings_access_token = None,
         settings_expires_at = Some ''2099-01-01T00:00:00.000Z'',
         settings_oauth = None\<rparr>\<rparr>"

definition initial_state :: state where
  "initial_state =
     \<lparr>calendarConnectionSettings = None, gmailConnectionSettings = None, trace = []\<rparr>"

text \<open>Both caches hold a record that expires in 2099, with its token under
  \<open>oauth.credentials\<close>, or with a direct token.\<close>

definition nested_state :: state where
  "nested_state =
     \<lparr>calendarConnectionSettings = Some item_nested,
      gmailConnectionSettings = Some item_nested, trace = []\<rparr>"

definition fresh_state :: state where
  "fresh_state =
     \<lparr>calendarConnectionSettings = Some item_direct,
      gmailConnectionSettings = Some item_direct, trace = []\<rparr>"

text \<open>Both caches hold a record with a direct token and no expiry.\<close>

definition no_expiry_state :: state where
  "no_expiry_state =
     \<lparr>calendarConnectionSettings = Some item_no_expiry,
      gmailConnectionSettings = Some item_no_expiry, trace = []\<rparr>"

text \<open>The connector endpoint answers with one item, or with none.\<close>

definition nested_world :: world where
  "nested_world = offline\<lparr>fetch_items := (\<lambda>url tok. Inr (Some [item_nested]))\<rparr>"

definition tokenless_world :: world where
  "tokenless_world = offline\<lparr>fetch_items := (\<lambda>url tok. Inr (Some [item_tokenless]))\<rparr>"

definition empty_items_world :: world where
  "empty_items_world = offline\<lparr>fetch_items := (\<lambda>url tok. Inr (Some []))\<rparr>"

text \<open>No identity at all; an empty \<open>REPL_IDENTITY\<close> beside a renewal credential.\<close>

definition anonymous_world :: world where
  "anonymous_world = nested_world\<lparr>REPL_IDENTITY := None, WEB_REPL_RENEWAL := None\<rparr>"

definition empty_identity_world :: world where
  "empty_identity_world =
     nested_world\<lparr>REPL_IDENTITY := Some [], WEB_REPL_RENEWAL := Some ''renewal''\<rparr>"

definition both_identities_world :: world where
  "both_identities_world = nested_world\<lparr>WEB_REPL_RENEWAL := Some ''renewal''\<rparr>"

text \<open>Two listed messages, five stored ones, two events and one label.\<close>

definition ref1 :: message_ref where
  "ref1 = \<lparr>ref_id = Some ''m1'', ref_threadId = Some ''t1''\<rparr>"

definition ref2 :: message_ref where
  "ref2 = \<lparr>ref_id = Some ''m2'', ref_threadId = Some ''t2''\<rparr>"

definition plain_part :: message_part where
  "plain_part =
     MessagePart (Some ''text/plain'') (Some \<lparr>body_data = Some ''SGVsbG8sIHdvcmxkIQ==''\<rparr>) None"

definition html_part :: message_part where
  "html_part =
     MessagePart (Some ''text/html'') (Some \<lparr>body_data = Some ''PHA+SGVsbG8sIHdvcmxkITwvcD4=''\<rparr>)
       None"

text \<open>A message with an attachment: the two texts are the parts of a part.\<close>

definition alternative_part :: message_part where
  "alternative_part =
     MessagePart (Some ''multipart/alternative'') (Some \<lparr>body_data = None\<rparr>)
       (Some [plain_part, html_part])"

definition attachment_part :: message_part where
  "attachment_part = MessagePart (Some ''application/pdf'') (Some \<lparr>body_data = None\<rparr>) None"

definition nested_payload :: payload where
  "nested_payload =
     \<lparr>payload_headers = None,
      payload_body = Some \<lparr>body_data = None\<rparr>,
      payload_parts = Some [alternative_part, attachment_part]\<rparr>"

text \<open>A payload with data in its own body and the two texts as parts.\<close>

definition both_payload :: payload where
  "both_payload =
     \<lparr>payload_headers = None,
      payload_body = Some \<lparr>body_data = Some ''VG9wLWxldmVsIHRleHQ=''\<rparr>,
      payload_parts = Some [html_part, plain_part]\<rparr>"

definition html_first :: payload where
  "html_first =
     \<lparr>payload_headers = Some [\<lparr>header_name = Some ''Subject'', header_value = Some ''Town hall''\<rparr>,
                              \<lparr>header_name = Some ''From'', header_value = Some ''ann@example.org''\<rparr>],
      payload_body = Some \<lparr>body_data = None\<rparr>,
      payload_parts = Some [html_part, plain_part]\<rparr>"

definition plain_first :: payload where
  "plain_first =
     \<lparr>payload_headers = None,
      payload_body = None,
      payload_parts = Some [plain_part, html_part]\<rparr>"

definition top_level_only :: payload where
  "top_level_only =
     \<lparr>payload_headers = None,
      payload_body = Some \<lparr>body_data = Some ''VG9wLWxldmVsIHRleHQ=''\<rparr>,
      payload_parts = None\<rparr>"

definition stored :: "payload \<Rightarrow> message" where
  "stored p =
     \<lparr>message_threadId = Some ''t'', message_snippet = Some ''Hello'',
      message_labelIds = Some [''INBOX''], message_payload = Some p\<rparr>"

definition event1 :: event where
  "event1 =
     \<lparr>event_id = Some ''e1'', event_htmlLink = None, event_summary = Some ''Town hall'',
      event_start = Some \<lparr>time_dateTime = Some ''2026-11-05T18:00:00-07:00'', time_date = None,
                           time_timeZone = None\<rparr>,
      event_end = Some \<lparr>time_dateTime = Some ''2026-11-05T19:00:00-07:00'', time_date = None,
                         time_timeZone = None\<rparr>,
      event_location = Some ''City Hall''\<rparr>"

definition event2 :: event where
  "event2 =
     \<lparr>event_id = Some ''e2'', event_htmlLink = None, event_summary = None,
      event_start = Some \<lparr>time_dateTime = None, time_date = Some ''2026-11-07'',
                           time_timeZone = None\<rparr>,
      event_end = None,
      event_location = None\<rparr>"

definition example_get :: "string option \<Rightarrow> string \<Rightarrow> error + message" where
  "example_get i f =
     (if i = Some ''m1'' then Inr (stored html_first)
      else if i = Some ''m2'' then Inr (stored plain_first)
      else if i = Some ''m3'' then Inr (stored top_level_only)
      else if i = Some ''m4'' then Inr (stored nested_payload)
      else if i = Some ''m5'' then Inr (stored both_payload)
      else Inl (ProviderError ''messages.get''))"

text \<open>A connected account with two messages listed, two events and the label INBOX.\<close>

definition connected :: world where
  "connected =
     nested_world
       \<lparr>messages_list := (\<lambda>n q. Inr (Some (take (nat n) [ref1, ref2]))),
        messages_get := example_get,
        labels_list := Inr (Some [\<lparr>label_id = Some ''INBOX'', label_name = Some ''INBOX''\<rparr>]),
        labels_create := (\<lambda>n l m. Inr \<lparr>label_id = Some ''Label_1'', label_name = Some n\<rparr>),
        events_list := (\<lambda>n t. Inr (Some (take (nat n) [event1, event2])))\<rparr>"

text \<open>The same account with nothing to list.\<close>

definition connected_empty :: world where
  "connected_empty =
     connected\<lparr>messages_list := (\<lambda>n q. Inr (Some [])), events_list := (\<lambda>n t. Inr None)\<rparr>"

text \<open>The same account where the metadata of message \<open>m1\<close> cannot be fetched, and where
  no label can be created.\<close>

definition flaky :: world where
  "flaky =
     connected
       \<lparr>messages_get := (\<lambda>i f. if i = Some ''m1'' then Inl (ProviderError ''messages.get'')
                                 else example_get i f),
        labels_create := (\<lambda>n l m. Inl (ProviderError ''labels.create''))\<rparr>"

definition two_emails :: list_emails_input where
  "two_emails = \<lparr>li_maxResults = Some 2, li_query = None\<rparr>"

definition two_events :: list_events_input where
  "two_events = \<lparr>le_maxResults = Some 2, le_timeMin = None\<rparr>"

definition default_emails :: list_emails_input where
  "default_emails = \<lparr>li_maxResults = None, li_query = Some ''is:unread''\<rparr>"

definition default_events :: list_events_input where
  "default_events = \<lparr>le_maxResults = None, le_timeMin = Some ''2026-11-01T00:00:00Z''\<rparr>"

definition example_event :: create_event_input where
  "example_event =
     \<lparr>ce_summary = ''Town hall'', ce_description = None, ce_location = Some ''City Hall'',
      ce_startDateTime = ''2026-11-05T18:00:00'', ce_endDateTime = ''2026-11-05T19:00:00'',
      ce_timeZone = None, ce_allDay = False\<rparr>"

definition example_reply :: draft_input where
  "example_reply =
     \<lparr>dr_threadId = ''t1'', dr_to = ''ann@example.org'', dr_subject = ''Re: Town hall'',
      dr_body = ''See you there.'', dr_inReplyTo = Some ''<m1@example.org>''\<rparr>"

section \<open>The codec round trip\<close>

lemma b64_table: "list_all (\<lambda>n. b64_value (b64_char n) = Some n \<and> b64_char n \<noteq> CHR ''='') [0..<64]"
  by code_simp

lemma b64_value_char: "n < 64 \<Longrightarrow> b64_value (b64_char n) = Some n"
  using b64_table by (simp add: list_all_iff)

lemma b64_char_not_pad: "n < 64 \<Longrightarrow> b64_char n \<noteq> CHR ''=''"
  using b64_table by (simp add: list_all_iff)

lemma encode_groups_sextets:
  "encode_groups bs = map b64_char (sextets bs) @ replicate (padding bs) (CHR ''='')"
  by (induction bs rule: encode_groups.induct) (simp_all add: numeral_2_eq_2)

lemma sextets_bound: "\<forall>x\<in>set bs. x < 256 \<Longrightarrow> \<forall>n\<in>set (sextets bs). n < 64"
  by (induction bs rule: sextets.induct) auto

lemma decode_sextets: "\<forall>x\<in>set bs. x < 256 \<Longrightarrow> decode_groups (sextets bs) = bs"
  by (induction bs rule: sextets.induct) auto

lemma map_filter_values:
  "\<forall>n\<in>set ns. n < 64 \<Longrightarrow> List.map_filter b64_value (map b64_char ns) = ns"
  by (induction ns) (simp_all add: List.map_filter_simps b64_value_char)

lemma takeWhile_chars:
  "\<forall>n\<in>set ns. n < 64 \<Longrightarrow> takeWhile (\<lambda>c. c \<noteq> CHR ''='') (map b64_char ns @ replicate k (CHR ''='')) = map b64_char ns"
  by (cases k) (auto simp: takeWhile_append b64_char_not_pad)

lemma from_base64_toString_base64: "from_base64 (toString_base64 s) = s"
proof -
  let ?bs = "map of_char s :: nat list"
  have b: "\<forall>x\<in>set ?bs. x < 256" by simp
  have "from_base64 (toString_base64 s) = map char_of (decode_groups (sextets ?bs))"
    unfolding from_base64_def toString_base64_def encode_groups_sextets
    by (simp only: takeWhile_chars[OF sextets_bound[OF b]] map_filter_values[OF sextets_bound[OF b]])
  also have "\<dots> = map char_of ?bs" by (simp only: decode_sextets[OF b])
  also have "\<dots> = s" by (simp add: comp_def)
  finally show ?thesis .
qed

lemma url_table:
  "list_all (\<lambda>n. b64_value (url_char n) = Some n \<and> url_char n \<noteq> CHR ''='') [0..<64]"
  by code_simp

lemma strip_trailing_replicate:
  assumes "\<forall>c\<in>set cs. c \<noteq> x"
  shows "strip_trailing x (cs @ replicate k x) = cs"
proof -
  have "dropWhile (\<lambda>c. c = x) (replicate k x @ rev cs) = dropWhile (\<lambda>c. c = x) (rev cs)"
    by (induction k) simp_all
  moreover have "dropWhile (\<lambda>c. c = x) (rev cs) = rev cs"
    using assms by (cases "rev cs") (auto dest: arg_cong[where f = set])
  ultimately show ?thesis by (simp add: strip_trailing_def)
qed

lemma base64url_sextets:
  assumes "\<forall>n\<in>set (sextets bs). n < 64"
  shows "strip_trailing (CHR ''='')
           (replace_all (CHR ''/'') (CHR ''_'')
             (replace_all (CHR ''+'') (CHR ''-'') (encode_groups bs)))
         = map url_char (sextets bs)"
proof -
  have ne: "\<forall>c\<in>set (map url_char (sextets bs)). c \<noteq> CHR ''=''"
    using assms url_table by (simp add: list_all_iff)
  have "replace_all (CHR ''/'') (CHR ''_'')
             (replace_all (CHR ''+'') (CHR ''-'') (encode_groups bs))
        = map url_char (sextets bs) @ replicate (padding bs) (CHR ''='')"
    by (simp add: encode_groups_sextets replace_all_def url_char_def replace_char_def)
  then show ?thesis
    using strip_trailing_replicate[OF ne] by simp
qed

lemma map_filter_url_values:
  "\<forall>n\<in>set ns. n < 64 \<Longrightarrow>
   List.map_filter b64_value (takeWhile (\<lambda>c. c \<noteq> CHR ''='') (map url_char ns)) = ns"
proof (induction ns)
  case Nil
  show ?case by (simp add: List.map_filter_simps)
next
  case (Cons n ns)
  then have n: "n < 64" and ns: "\<forall>n\<in>set ns. n < 64" by simp_all
  from n url_table have v: "b64_value (url_char n) = Some n" and p: "url_char n \<noteq> CHR ''=''"
    by (simp_all add: list_all_iff)
  show ?case using Cons.IH[OF ns] v p by (simp add: List.map_filter_simps)
qed

lemma from_base64_base64url: "from_base64 (base64url s) = s"
proof -
  let ?bs = "map of_char s :: nat list"
  have b: "\<forall>x\<in>set ?bs. x < 256" by simp
  have "from_base64 (base64url s) = map char_of (decode_groups (sextets ?bs))"
    unfolding from_base64_def base64url_def toString_base64_def
    by (simp only: base64url_sextets[OF sextets_bound[OF b]]
          map_filter_url_values[OF sextets_bound[OF b]])
  also have "\<dots> = map char_of ?bs" by (simp only: decode_sextets[OF b])
  also have "\<dots> = s" by (simp add: comp_def)
  finally show ?thesis .
qed

text \<open>Decoding leaves well-formed bytes as they are, and replaces the others.\<close>

lemma utf8_decode_wellformed:
  "wellformed_bytes bs \<Longrightarrow> utf8_decode [] 0 lo hi bs = bs"
proof (induction bs arbitrary: lo hi rule: wellformed_bytes.induct)
  case 1
  show ?case by simp
next
  case (2 b bs)
  consider (one) "b < 0x80"
    | (two) "0xC2 \<le> b" "b \<le> 0xDF"
    | (three) "0xE0 \<le> b" "b \<le> 0xEF"
    | (four) "0xF0 \<le> b" "b \<le> 0xF4"
    using "2.prems" by (auto split: if_splits)
  then show ?case
  proof cases
    case one
    with 2 show ?thesis by simp
  next
    case two
    with "2.prems" obtain c1 r where bs: "bs = c1 # r" and c: "continuation c1"
      and w: "wellformed_bytes r"
      by (auto split: list.splits)
    from two have n: "\<not> b < 0x80" by simp
    from "2.IH"(2)[OF n _ bs w] two have "utf8_decode [] 0 0x80 0xBF r = r" by simp
    with two bs c show ?thesis by (simp add: continuation_def)
  next
    case three
    with "2.prems" obtain c1 c2 r where bs: "bs = c1 # c2 # r"
      and c1: "(if b = 0xE0 then 0xA0 else 0x80) \<le> c1" "c1 \<le> (if b = 0xED then 0x9F else 0xBF)"
      and c2: "continuation c2" and w: "wellformed_bytes r"
      by (auto split: list.splits if_splits)
    from three have n: "\<not> b < 0x80" "\<not> (0xC2 \<le> b \<and> b \<le> 0xDF)" by simp_all
    from "2.IH"(3)[OF n _ bs _ w] three have "utf8_decode [] 0 0x80 0xBF r = r" by simp
    with three bs c1 c2 show ?thesis by (simp add: continuation_def)
  next
    case four
    with "2.prems" obtain c1 c2 c3 r where bs: "bs = c1 # c2 # c3 # r"
      and c1: "(if b = 0xF0 then 0x90 else 0x80) \<le> c1" "c1 \<le> (if b = 0xF4 then 0x8F else 0xBF)"
      and c2: "continuation c2" and c3: "continuation c3" and w: "wellformed_bytes r"
      by (auto split: list.splits if_splits)
    from four have n: "\<not> b < 0x80" "\<not> (0xC2 \<le> b \<and> b \<le> 0xDF)"
      "\<not> (0xE0 \<le> b \<and> b \<le> 0xEF)"
      by simp_all
    from "2.IH"(4)[OF n _ bs _ _ w] four have "utf8_decode [] 0 0x80 0xBF r = r" by simp
    with four bs c1 c2 c3 show ?thesis by (simp add: continuation_def)
  qed
qed

lemma toString_utf8_wellformed: "wellformed_utf8 s \<Longrightarrow> toString_utf8 s = s"
  by (simp add: toString_utf8_def wellformed_utf8_def utf8_decode_wellformed comp_def)

lemma decodeBody_toString_base64: "wellformed_utf8 t \<Longrightarrow> decodeBody (toString_base64 t) = t"
  by (simp add: decodeBody_def from_base64_toString_base64 toString_utf8_wellformed)

lemma utf8_decode_replaces:
  "utf8_decode [] 0 0x80 0xBF [0xE2, 0x82, 0x41] = [0xEF, 0xBF, 0xBD, 0x41]"
  "utf8_decode [] 0 0x80 0xBF [0xED, 0xA0, 0x80]
     = [0xEF, 0xBF, 0xBD, 0xEF, 0xBF, 0xBD, 0xEF, 0xBF, 0xBD]"
  "utf8_decode [] 0 0x80 0xBF [0xC0, 0xAF] = [0xEF, 0xBF, 0xBD, 0xEF, 0xBF, 0xBD]"
  "utf8_decode [] 0 0x80 0xBF [0xF4, 0x90, 0x80, 0x80]
     = [0xEF, 0xBF, 0xBD, 0xEF, 0xBF, 0xBD, 0xEF, 0xBF, 0xBD, 0xEF, 0xBF, 0xBD]"
  "utf8_decode [] 0 0x80 0xBF [0xF0, 0x9F, 0x98] = [0xEF, 0xBF, 0xBD]"
  "utf8_decode [] 0 0x80 0xBF [0xE2, 0x28, 0xA1] = [0xEF, 0xBF, 0xBD, 0x28, 0xEF, 0xBF, 0xBD]"
  "utf8_decode [] 0 0x80 0xBF [0xF0, 0x9F, 0x98, 0x80] = [0xF0, 0x9F, 0x98, 0x80]"
  "utf8_decode [] 0 0x80 0xBF [0xEF, 0xBB, 0xBF, 0x41] = [0xEF, 0xBB, 0xBF, 0x41]"
  by code_simp+

text \<open>A lone byte FF, a Latin-1 text and a UTF-8 text, as the body of a message.\<close>

lemma decodeBody_examples:
  "decodeBody ''/w=='' = [CHR 0xEF, CHR 0xBF, CHR 0xBD]"
  "decodeBody ''Y2Fm6Q=='' = ''caf'' @ [CHR 0xEF, CHR 0xBF, CHR 0xBD]"
  "decodeBody ''Y2Fmw6k='' = ''caf'' @ [CHR 0xC3, CHR 0xA9]"
  by code_simp+

section \<open>Properties of the token cache\<close>

lemma connectionSettings_logger: "connectionSettings f (logger lg e s) = connectionSettings f s"
  by (simp add: connectionSettings_def logger_def split: family.splits)

text \<open>
  C1, amended. For either resource family: when the cache holds a record whose expiry is
  present, not empty and strictly after \<open>Date.now()\<close>, \<open>getAccessToken\<close> returns and
  leaves the state as it was, so no fetch is issued; and when that record holds a
  non-empty \<open>settings.access_token\<close>, the value returned is that token, which is also the
  token that extraction finds in the record.
\<close>

theorem cache_hit_returns_cached_token:
  assumes "connectionSettings f s = Some c" and "connection_settings c = Some st"
    and "settings_expires_at st = Some e" and "e \<noteq> []"
    and "date_getTime w e = Some t" and "date_now w < t"
  shows "snd (getAccessToken w f s) = s
         \<and> fetches (snd (getAccessToken w f s)) = fetches s
         \<and> (\<exists>v. fst (getAccessToken w f s) = Inr v)
         \<and> (settings_access_token st = Some a \<and> a \<noteq> [] \<longrightarrow>
              fst (getAccessToken w f s) = Inr (Some a)
              \<and> extractAccessToken (connectionSettings f s) = Inr (Some a))"
  using assms
  by (simp add: getAccessToken_def cacheFresh_def cachedToken_def truthy_def extractAccessToken_def)

text \<open>In a world whose every remote call rejects, both families answer from the cache; a
  fresh record with its token under \<open>oauth.credentials\<close> is answered with no fetch
  either.\<close>

theorem cache_hit_returns_cached_token_witness:
  "getGmailAccessToken offline fresh_state = (Inr (Some ''A''), fresh_state)
   \<and> getCalendarAccessToken offline fresh_state = (Inr (Some ''A''), fresh_state)
   \<and> snd (getGmailAccessToken offline nested_state) = nested_state"
proof -
  have t: "date_getTime offline ''2099-01-01T00:00:00.000Z'' = Some 4070908800000"
    by (simp add: offline_def example_getTime_def)
  have n: "date_now offline < 4070908800000"
    by (simp add: offline_def)
  have st: "connection_settings item_direct =
      Some \<lparr>settings_access_token = Some ''A'',
         settings_expires_at = Some ''2099-01-01T00:00:00.000Z'',
         settings_oauth = None\<rparr>"
    by (simp add: item_direct_def)
  have nt: "connection_settings item_nested =
      Some \<lparr>settings_access_token = None,
         settings_expires_at = Some ''2099-01-01T00:00:00.000Z'',
         settings_oauth = Some
           \<lparr>oauth_credentials = Some \<lparr>credentials_access_token = Some ''B''\<rparr>\<rparr>\<rparr>"
    by (simp add: item_nested_def)
  have m: "connectionSettings Mail fresh_state = Some item_direct"
    and c: "connectionSettings Calendar fresh_state = Some item_direct"
    and k: "connectionSettings Mail nested_state = Some item_nested"
    by (simp_all add: connectionSettings_def fresh_state_def nested_state_def)
  show ?thesis
    using cache_hit_returns_cached_token[OF m st _ _ t n, where a = "''A''"]
      cache_hit_returns_cached_token[OF c st _ _ t n, where a = "''A''"]
      cache_hit_returns_cached_token[OF k nt _ _ t n]
    by (simp add: getGmailAccessToken_def getCalendarAccessToken_def prod_eq_iff)
qed

text \<open>
  C1 as stated fails on two cached records. A record with no expiry: line 218 asks for a
  truthy \<open>expires_at\<close>, so the call fetches and returns the token of the fetched item. A
  fresh record whose token sits under \<open>oauth.credentials\<close>, as line 243 accepts it: line
  219 reads \<open>settings.access_token\<close> alone and the call returns \<open>undefined\<close>, not the
  token the record holds.
\<close>

theorem cache_without_expiry_counterexample:
  "gmailConnectionSettings no_expiry_state = Some item_no_expiry
   \<and> map_option settings_expires_at (connection_settings item_no_expiry) = Some None
   \<and> cachedToken (gmailConnectionSettings no_expiry_state) = Some ''A''
   \<and> fetches no_expiry_state = 0
   \<and> fst (getGmailAccessToken nested_world no_expiry_state) = Inr (Some ''B'')
   \<and> fetches (snd (getGmailAccessToken nested_world no_expiry_state)) = 1
   \<and> gmailConnectionSettings nested_state = Some item_nested
   \<and> map_option settings_expires_at (connection_settings item_nested)
       = Some (Some ''2099-01-01T00:00:00.000Z'')
   \<and> extractAccessToken (gmailConnectionSettings nested_state) = Inr (Some ''B'')
   \<and> getGmailAccessToken offline nested_state = (Inr None, nested_state)"
  by code_simp

text \<open>What a fetch does to the cache and to the trace, whatever it returns.\<close>

lemma trace_set_connectionSettings: "trace (set_connectionSettings f c s) = trace s"
  by (cases f) (simp_all add: set_connectionSettings_def)

lemma trace_fetchAccessToken:
  assumes "xReplitToken w = Some tok"
  shows "trace (snd (fetchAccessToken w f s)) = trace s @ [Fetch (connection_url w f) tok]"
proof (cases "fetch_items w (connection_url w f) tok")
  case (Inl e)
  with assms show ?thesis by (simp add: fetchAccessToken_def)
next
  case (Inr items)
  with assms show ?thesis
    by (cases "extractAccessToken (first_item items)")
       (simp_all add: fetchAccessToken_def trace_set_connectionSettings Let_def)
qed

lemma fetchAccessToken_no_identity:
  "xReplitToken w = None \<Longrightarrow> fetchAccessToken w f s = (Inl no_identity, s)"
  by (simp add: fetchAccessToken_def)

lemma getAccessToken_stale:
  "cacheFresh w (connectionSettings f s) = Inr False \<Longrightarrow>
   getAccessToken w f s = fetchAccessToken w f s"
  by (simp add: getAccessToken_def)

lemma trace_getAccessToken:
  "trace (snd (getAccessToken w f s)) = trace s
   \<or> (\<exists>tok. xReplitToken w = Some tok
         \<and> trace (snd (getAccessToken w f s)) = trace s @ [Fetch (connection_url w f) tok])"
proof (cases "cacheFresh w (connectionSettings f s)")
  case (Inl e)
  then show ?thesis by (simp add: getAccessToken_def)
next
  case (Inr fresh)
  show ?thesis
  proof (cases fresh)
    case True
    with Inr show ?thesis by (simp add: getAccessToken_def)
  next
    case False
    with Inr have g: "getAccessToken w f s = fetchAccessToken w f s"
      by (simp add: getAccessToken_def)
    show ?thesis
    proof (cases "xReplitToken w")
      case None
      with g show ?thesis by (simp add: fetchAccessToken_no_identity)
    next
      case (Some tok)
      with g trace_fetchAccessToken[OF Some, of f s] show ?thesis by simp
    qed
  qed
qed

lemma calls_getAccessToken: "calls (snd (getAccessToken w f s)) = calls s"
proof -
  have "calls_of (xs @ [Fetch u t]) = calls_of xs" for xs u t
    by (induction xs rule: calls_of.induct) simp_all
  then show ?thesis
    using trace_getAccessToken[of w f s] by (auto simp: calls_def)
qed

text \<open>The three outcomes of token extraction after a fetch that returned an item.\<close>

lemma token_extraction_direct:
  assumes "cacheFresh w (connectionSettings f s) = Inr False" and "xReplitToken w = Some tok"
    and "fetch_items w (connection_url w f) tok = Inr (Some (c # cs))"
    and "connection_settings c = Some st" and "settings_access_token st = Some a" and "a \<noteq> []"
  shows "fst (getAccessToken w f s) = Inr (Some a)"
  using assms
  by (simp add: getAccessToken_def fetchAccessToken_def first_item_def extractAccessToken_def
      cachedToken_def truthy_def)

lemma token_extraction_nested:
  assumes "cacheFresh w (connectionSettings f s) = Inr False" and "xReplitToken w = Some tok"
    and "fetch_items w (connection_url w f) tok = Inr (Some (c # cs))"
    and "connection_settings c = Some st" and "settings_access_token st = None"
    and "settings_oauth st = Some oa" and "oauth_credentials oa = Some cr"
    and "credentials_access_token cr = Some b" and "b \<noteq> []"
  shows "fst (getAccessToken w f s) = Inr (Some b)"
  using assms
  by (simp add: getAccessToken_def fetchAccessToken_def first_item_def extractAccessToken_def
      cachedToken_def truthy_def nestedToken_def)

lemma token_extraction_neither:
  assumes "cacheFresh w (connectionSettings f s) = Inr False" and "xReplitToken w = Some tok"
    and "fetch_items w (connection_url w f) tok = Inr (Some (c # cs))"
    and "truthy (cachedToken (Some c)) = None" and "truthy (nestedToken c) = None"
  shows "fst (getAccessToken w f s) = Inl (not_connected f)"
  using assms
  by (simp add: getAccessToken_def fetchAccessToken_def first_item_def extractAccessToken_def)

text \<open>
  C2. Line 233 assigns the fetched item to the cache before line 245 checks it. A fetch that
  returns an item with an expiry and no token ends in the not-connected error and leaves
  that item cached; the next call takes it for fresh and returns \<open>undefined\<close> with no
  further fetch.
\<close>

theorem tokenless_item_is_cached:
  "getGmailAccessToken tokenless_world initial_state
     = (Inl (not_connected Mail),
        \<lparr>calendarConnectionSettings = None, gmailConnectionSettings = Some item_tokenless,
         trace = [Fetch (connection_url tokenless_world Mail) ''repl identity'']\<rparr>)
   \<and> extractAccessToken (Some item_tokenless) = Inr None
   \<and> fst (getGmailAccessToken tokenless_world
        (snd (getGmailAccessToken tokenless_world initial_state))) = Inr None
   \<and> fetches (snd (getGmailAccessToken tokenless_world
        (snd (getGmailAccessToken tokenless_world initial_state)))) = 1"
  by code_simp

text \<open>
  C3. With an empty \<open>items\<close> list the fetched item is \<open>undefined\<close>; the right operand of
  line 33 (243) reads \<open>.settings\<close> of it, and the call fails with a TypeError instead of
  reaching the not-connected error of line 36 (246).
\<close>

theorem empty_items_type_error:
  "fst (getGmailAccessToken empty_items_world initial_state) = Inl (TypeError ''settings'')
   \<and> fst (getCalendarAccessToken empty_items_world initial_state) = Inl (TypeError ''settings'')
   \<and> fst (getGmailAccessToken empty_items_world initial_state) \<noteq> Inl (not_connected Mail)
   \<and> fst (getCalendarAccessToken empty_items_world initial_state)
       \<noteq> Inl (not_connected Calendar)"
  by code_simp

text \<open>
  C6. For either resource family: when the cached record is not fresh and neither
  \<open>REPL_IDENTITY\<close> nor \<open>WEB_REPL_RENEWAL\<close> is set, \<open>getAccessToken\<close> fails with the
  error of line 20 (230) and leaves the state as it was: no fetch has been issued.
\<close>

theorem no_identity_fails_before_fetch:
  assumes "cacheFresh w (connectionSettings f s) = Inr False"
    and "REPL_IDENTITY w = None" and "WEB_REPL_RENEWAL w = None"
  shows "getAccessToken w f s = (Inl no_identity, s)
         \<and> fetches (snd (getAccessToken w f s)) = fetches s"
  using assms by (simp add: getAccessToken_def fetchAccessToken_def xReplitToken_def truthy_def)

theorem no_identity_fails_before_fetch_witness:
  "getGmailAccessToken anonymous_world initial_state = (Inl no_identity, initial_state)
   \<and> getCalendarAccessToken anonymous_world no_expiry_state = (Inl no_identity, no_expiry_state)"
proof -
  have a: "REPL_IDENTITY anonymous_world = None" and b: "WEB_REPL_RENEWAL anonymous_world = None"
    by (simp_all add: anonymous_world_def)
  have m: "cacheFresh anonymous_world (connectionSettings Mail initial_state) = Inr False"
    by code_simp
  have c: "cacheFresh anonymous_world (connectionSettings Calendar no_expiry_state) = Inr False"
    by code_simp
  show ?thesis
    using no_identity_fails_before_fetch[OF m a b] no_identity_fails_before_fetch[OF c a b]
    by (simp add: getGmailAccessToken_def getCalendarAccessToken_def)
qed

text \<open>
  C9 as stated fails where \<open>REPL_IDENTITY\<close> is set to the empty string: the conditional of
  line 13 (223) tests truthiness, and the header is built from the renewal credential.
\<close>

theorem empty_repl_identity_counterexample:
  "REPL_IDENTITY empty_identity_world = Some []
   \<and> WEB_REPL_RENEWAL empty_identity_world = Some ''renewal''
   \<and> trace (snd (getGmailAccessToken empty_identity_world initial_state))
       = [Fetch (connection_url empty_identity_world Mail) ''depl renewal'']"
  by code_simp

text \<open>
  C9, amended. On a call that does not answer from the cache: when \<open>REPL_IDENTITY\<close> is set
  to a non-empty string, the one fetch carries the header \<open>repl\<close> followed by it, whatever
  \<open>WEB_REPL_RENEWAL\<close> is; and a fetch that carries a \<open>depl\<close> header was built from
  \<open>WEB_REPL_RENEWAL\<close> with \<open>REPL_IDENTITY\<close> absent or empty.
\<close>

theorem identity_precedence:
  assumes "cacheFresh w (connectionSettings f s) = Inr False"
  shows "(REPL_IDENTITY w = Some r \<and> r \<noteq> [] \<longrightarrow>
            trace (snd (getAccessToken w f s))
              = trace s @ [Fetch (connection_url w f) (''repl '' @ r)])
         \<and> (trace (snd (getAccessToken w f s))
              = trace s @ [Fetch (connection_url w f) (''depl '' @ d)] \<longrightarrow>
            (REPL_IDENTITY w = None \<or> REPL_IDENTITY w = Some []) \<and> WEB_REPL_RENEWAL w = Some d)"
proof (rule conjI; rule impI)
  assume "REPL_IDENTITY w = Some r \<and> r \<noteq> []"
  then have "xReplitToken w = Some (''repl '' @ r)"
    by (simp add: xReplitToken_def truthy_def)
  then show "trace (snd (getAccessToken w f s))
              = trace s @ [Fetch (connection_url w f) (''repl '' @ r)]"
    by (simp add: getAccessToken_stale[OF assms] trace_fetchAccessToken)
next
  assume t: "trace (snd (getAccessToken w f s))
              = trace s @ [Fetch (connection_url w f) (''depl '' @ d)]"
  have x: "xReplitToken w = Some (''depl '' @ d)"
  proof (cases "xReplitToken w")
    case None
    with t show ?thesis
      by (simp add: getAccessToken_stale[OF assms] fetchAccessToken_no_identity)
  next
    case (Some tok)
    with t show ?thesis
      by (simp add: getAccessToken_stale[OF assms] trace_fetchAccessToken)
  qed
  then show "(REPL_IDENTITY w = None \<or> REPL_IDENTITY w = Some []) \<and> WEB_REPL_RENEWAL w = Some d"
    by (auto simp: xReplitToken_def truthy_def split: option.splits if_splits)
qed

theorem identity_precedence_witness:
  "trace (snd (getGmailAccessToken both_identities_world initial_state))
     = [Fetch (connection_url both_identities_world Mail) ''repl identity'']
   \<and> REPL_IDENTITY empty_identity_world = Some []
   \<and> WEB_REPL_RENEWAL empty_identity_world = Some ''renewal''"
proof -
  have m: "cacheFresh both_identities_world (connectionSettings Mail initial_state) = Inr False"
    by code_simp
  have e: "cacheFresh empty_identity_world (connectionSettings Mail initial_state) = Inr False"
    by code_simp
  have r: "REPL_IDENTITY both_identities_world = Some ''identity'' \<and> ''identity'' \<noteq> []"
    by (simp add: both_identities_world_def nested_world_def offline_def)
  have t: "trace (snd (getAccessToken empty_identity_world Mail initial_state))
              = trace initial_state
                  @ [Fetch (connection_url empty_identity_world Mail) (''depl '' @ ''renewal'')]"
    by code_simp
  have n: "REPL_IDENTITY empty_identity_world \<noteq> None"
    by (simp add: empty_identity_world_def)
  show ?thesis
    using identity_precedence[OF m, of "''identity''" "''x''"] r
      identity_precedence[OF e, of "''x''" "''renewal''"] t n
    by (simp add: getGmailAccessToken_def initial_state_def)
qed

section \<open>Properties of the tools\<close>

lemma fst_fetchAccessToken: "fst (fetchAccessToken w f s) = fst (fetchAccessToken w f s')"
  by (simp add: fetchAccessToken_def Let_def split: option.splits sum.splits)

lemma fst_getAccessToken_logger:
  "fst (getAccessToken w f (logger lg e s)) = fst (getAccessToken w f s)"
  using fst_fetchAccessToken[of w f "logger lg e s" s]
  by (simp add: getAccessToken_def connectionSettings_logger split: sum.splits)

lemma calls_of_append: "calls_of (xs @ ys) = calls_of xs @ calls_of ys"
  by (induction xs rule: calls_of.induct) simp_all

lemma calls_logger: "calls (logger lg e s) = calls s"
  by (simp add: calls_def logger_def calls_of_append)

text \<open>The client factories succeed or fail with the token cache, whatever was logged before.\<close>

lemma getGmailClient_fails:
  assumes "fst (getGmailAccessToken w s) = Inl e"
  shows "fst (getGmailClient w (logger lg i s)) = Inl e"
proof -
  have "fst (getAccessToken w Mail (logger lg i s)) = Inl e"
    using assms by (simp add: fst_getAccessToken_logger getGmailAccessToken_def)
  then show ?thesis
    by (cases "getAccessToken w Mail (logger lg i s)")
       (simp add: getGmailClient_def getGmailAccessToken_def andThen_def)
qed

lemma getCalendarClient_fails:
  assumes "fst (getCalendarAccessToken w s) = Inl e"
  shows "fst (getCalendarClient w (logger lg i s)) = Inl e"
proof -
  have "fst (getAccessToken w Calendar (logger lg i s)) = Inl e"
    using assms by (simp add: fst_getAccessToken_logger getCalendarAccessToken_def)
  then show ?thesis
    by (cases "getAccessToken w Calendar (logger lg i s)")
       (simp add: getCalendarClient_def getCalendarAccessToken_def andThen_def)
qed

lemma getGmailClient_succeeds:
  assumes "fst (getGmailAccessToken w s) = Inr tok"
  shows "\<exists>c s2. getGmailClient w (logger lg i s) = (Inr c, s2) \<and> calls s2 = calls s"
proof -
  obtain r s2 where g: "getAccessToken w Mail (logger lg i s) = (r, s2)"
    by (cases "getAccessToken w Mail (logger lg i s)")
  have "fst (getAccessToken w Mail (logger lg i s)) = Inr tok"
    using assms by (simp add: fst_getAccessToken_logger getGmailAccessToken_def)
  with g have r: "r = Inr tok" by simp
  have "calls s2 = calls s"
    using calls_getAccessToken[of w Mail "logger lg i s"] g by (simp add: calls_logger)
  with g r show ?thesis
    by (simp add: getGmailClient_def getGmailAccessToken_def andThen_def succeed_def)
qed

lemma getCalendarClient_succeeds:
  assumes "fst (getCalendarAccessToken w s) = Inr tok"
  shows "\<exists>c s2. getCalendarClient w (logger lg i s) = (Inr c, s2) \<and> calls s2 = calls s"
proof -
  obtain r s2 where g: "getAccessToken w Calendar (logger lg i s) = (r, s2)"
    by (cases "getAccessToken w Calendar (logger lg i s)")
  have "fst (getAccessToken w Calendar (logger lg i s)) = Inr tok"
    using assms by (simp add: fst_getAccessToken_logger getCalendarAccessToken_def)
  with g have r: "r = Inr tok" by simp
  have "calls s2 = calls s"
    using calls_getAccessToken[of w Calendar "logger lg i s"] g by (simp add: calls_logger)
  with g r show ?thesis
    by (simp add: getCalendarClient_def getCalendarAccessToken_def andThen_def succeed_def)
qed

text \<open>The shape every tool has: log, then a body inside \<open>try\<close>/\<open>catch\<close>.\<close>

lemma tool_rethrows:
  assumes "fst (m (logger lg i s)) = Inl e"
  shows "rethrown lg msg e (andThen (tell lg i) (\<lambda>_. tryCatch lg msg m) s)"
  using assms
  by (cases "m (logger lg i s)")
     (simp add: rethrown_def andThen_def tell_def tryCatch_def logger_def)

lemma andThen_fails:
  "fst (m s) = Inl e \<Longrightarrow> fst (andThen m k s) = Inl e"
  by (cases "m s") (simp add: andThen_def)

text \<open>A failure of the client factory is logged and rethrown by every tool.\<close>

lemma listEmailsTool_client_fails:
  assumes "fst (getGmailAccessToken w s) = Inl e"
  shows "rethrown lg ''[listEmailsTool] Failed to list emails'' e (listEmailsTool w lg li s)"
  unfolding listEmailsTool_def
  by (rule tool_rethrows, rule andThen_fails, rule getGmailClient_fails, rule assms)

lemma getEmailContentTool_client_fails:
  assumes "fst (getGmailAccessToken w s) = Inl e"
  shows "rethrown lg ''[getEmailContentTool] Failed to get email content'' e (getEmailContentTool w lg emailId s)"
  unfolding getEmailContentTool_def
  by (rule tool_rethrows, rule andThen_fails, rule getGmailClient_fails, rule assms)

lemma createOrGetLabelTool_client_fails:
  assumes "fst (getGmailAccessToken w s) = Inl e"
  shows "rethrown lg ''[createOrGetLabelTool] Failed to create/get label'' e (createOrGetLabelTool w lg labelName s)"
  unfolding createOrGetLabelTool_def
  by (rule tool_rethrows, rule andThen_fails, rule getGmailClient_fails, rule assms)

lemma addLabelToEmailTool_client_fails:
  assumes "fst (getGmailAccessToken w s) = Inl e"
  shows "rethrown lg ''[addLabelToEmailTool] Failed to add label'' e (addLabelToEmailTool w lg emailId labelId s)"
  unfolding addLabelToEmailTool_def
  by (rule tool_rethrows, rule andThen_fails, rule getGmailClient_fails, rule assms)

lemma createDraftReplyTool_client_fails:
  assumes "fst (getGmailAccessToken w s) = Inl e"
  shows "rethrown lg ''[createDraftReplyTool] Failed to create draft'' e (createDraftReplyTool w lg dr s)"
  unfolding createDraftReplyTool_def
  by (rule tool_rethrows, rule andThen_fails, rule getGmailClient_fails, rule assms)

lemma createCalendarEventTool_client_fails:
  assumes "fst (getCalendarAccessToken w s) = Inl e"
  shows "rethrown lg ''[createCalendarEventTool] Failed to create event'' e (createCalendarEventTool w lg ce s)"
  unfolding createCalendarEventTool_def
  by (rule tool_rethrows, rule andThen_fails, rule getCalendarClient_fails, rule assms)

lemma listUpcomingEventsTool_client_fails:
  assumes "fst (getCalendarAccessToken w s) = Inl e"
  shows "rethrown lg ''[listUpcomingEventsTool] Failed to list events'' e (listUpcomingEventsTool w lg le s)"
  unfolding listUpcomingEventsTool_def
  by (rule tool_rethrows, rule andThen_fails, rule getCalendarClient_fails, rule assms)

text \<open>A rejection of the tool's own client call is logged and rethrown.\<close>

lemma listEmailsTool_call_fails:
  assumes tok: "fst (getGmailAccessToken w s) = Inr tok"
    and rej: "messages_list w (cap_or_50 (li_maxResults li)) (or_else (li_query li) []) = Inl e"
  shows "rethrown lg ''[listEmailsTool] Failed to list emails'' e (listEmailsTool w lg li s)"
proof -
  obtain c s2 where
    g: "getGmailClient w (logger lg (Info ''[listEmailsTool] Starting email retrieval'') s) = (Inr c, s2)"
    using getGmailClient_succeeds[OF tok] by blast
  show ?thesis
    unfolding listEmailsTool_def
    by (rule tool_rethrows) (simp add: andThen_def g rej call_def)
qed

lemma getEmailContentTool_call_fails:
  assumes tok: "fst (getGmailAccessToken w s) = Inr tok"
    and rej: "messages_get w (Some emailId) ''full'' = Inl e"
  shows "rethrown lg ''[getEmailContentTool] Failed to get email content'' e (getEmailContentTool w lg emailId s)"
proof -
  obtain c s2 where
    g: "getGmailClient w (logger lg (Info ''[getEmailContentTool] Fetching email content'') s) = (Inr c, s2)"
    using getGmailClient_succeeds[OF tok] by blast
  show ?thesis
    unfolding getEmailContentTool_def
    by (rule tool_rethrows) (simp add: andThen_def g rej call_def)
qed

lemma createOrGetLabelTool_call_fails:
  assumes tok: "fst (getGmailAccessToken w s) = Inr tok"
    and rej: "labels_list w = Inl e"
  shows "rethrown lg ''[createOrGetLabelTool] Failed to create/get label'' e (createOrGetLabelTool w lg labelName s)"
proof -
  obtain c s2 where
    g: "getGmailClient w (logger lg (Info ''[createOrGetLabelTool] Creating/getting label'') s) = (Inr c, s2)"
    using getGmailClient_succeeds[OF tok] by blast
  show ?thesis
    unfolding createOrGetLabelTool_def
    by (rule tool_rethrows) (simp add: andThen_def g rej call_def)
qed

lemma addLabelToEmailTool_call_fails:
  assumes tok: "fst (getGmailAccessToken w s) = Inr tok"
    and rej: "messages_modify w emailId [labelId] = Inl e"
  shows "rethrown lg ''[addLabelToEmailTool] Failed to add label'' e (addLabelToEmailTool w lg emailId labelId s)"
proof -
  obtain c s2 where
    g: "getGmailClient w (logger lg (Info ''[addLabelToEmailTool] Adding label to email'') s) = (Inr c, s2)"
    using getGmailClient_succeeds[OF tok] by blast
  show ?thesis
    unfolding addLabelToEmailTool_def
    by (rule tool_rethrows) (simp add: andThen_def g rej call_def)
qed

lemma createDraftReplyTool_call_fails:
  assumes tok: "fst (getGmailAccessToken w s) = Inr tok"
    and rej: "drafts_create w (encodedMessage dr) (dr_threadId dr) = Inl e"
  shows "rethrown lg ''[createDraftReplyTool] Failed to create draft'' e (createDraftReplyTool w lg dr s)"
proof -
  obtain c s2 where
    g: "getGmailClient w (logger lg (Info ''[createDraftReplyTool] Creating draft reply'') s) = (Inr c, s2)"
    using getGmailClient_succeeds[OF tok] by blast
  show ?thesis
    unfolding createDraftReplyTool_def
    by (rule tool_rethrows) (simp add: andThen_def g rej call_def)
qed

lemma createCalendarEventTool_call_fails:
  assumes tok: "fst (getCalendarAccessToken w s) = Inr tok"
    and rej: "events_insert w (createCalendarEvent_request ce) = Inl e"
  shows "rethrown lg ''[createCalendarEventTool] Failed to create event'' e (createCalendarEventTool w lg ce s)"
proof -
  obtain c s2 where
    g: "getCalendarClient w (logger lg (Info ''[createCalendarEventTool] Creating calendar event'') s) = (Inr c, s2)"
    using getCalendarClient_succeeds[OF tok] by blast
  show ?thesis
    unfolding createCalendarEventTool_def
    by (rule tool_rethrows) (simp add: andThen_def g rej call_def)
qed

lemma listUpcomingEventsTool_call_fails:
  assumes tok: "fst (getCalendarAccessToken w s) = Inr tok"
    and rej: "events_list w (cap_or_50 (le_maxResults le)) (or_else (le_timeMin le) (date_toISOString w)) = Inl e"
  shows "rethrown lg ''[listUpcomingEventsTool] Failed to list events'' e (listUpcomingEventsTool w lg le s)"
proof -
  obtain c s2 where
    g: "getCalendarClient w (logger lg (Info ''[listUpcomingEventsTool] Listing upcoming events'') s) = (Inr c, s2)"
    using getCalendarClient_succeeds[OF tok] by blast
  show ?thesis
    unfolding listUpcomingEventsTool_def
    by (rule tool_rethrows) (simp add: andThen_def g rej call_def)
qed

lemma createOrGetLabelTool_create_fails:
  assumes tok: "fst (getGmailAccessToken w s) = Inr tok"
    and ls: "labels_list w = Inr labels" and new: "existingLabel labels labelName = None"
    and rej: "labels_create w labelName ''labelShow'' ''show'' = Inl e"
  shows "rethrown lg ''[createOrGetLabelTool] Failed to create/get label'' e
           (createOrGetLabelTool w lg labelName s)"
proof -
  obtain c s2 where
    g: "getGmailClient w (logger lg (Info ''[createOrGetLabelTool] Creating/getting label'') s)
          = (Inr c, s2)"
    using getGmailClient_succeeds[OF tok] by blast
  show ?thesis
    unfolding createOrGetLabelTool_def
    by (rule tool_rethrows) (simp add: andThen_def g ls new rej call_def)
qed

lemma calls_after_call: "calls (s\<lparr>trace := trace s @ [Call x]\<rparr>) = calls s @ [x]"
  by (simp add: calls_def calls_of_append)

text \<open>The loop of \<open>listEmailsTool\<close>: one metadata request per listed message, and one
  summary per request that resolves.\<close>

lemma retrieved_Cons:
  "retrieved w (m # ms) =
     (case messages_get w (ref_id m) ''metadata'' of
        Inl err \<Rightarrow> retrieved w ms
      | Inr emailData \<Rightarrow> summarize_email m emailData # retrieved w ms)"
  by (simp add: retrieved_def List.map_filter_simps split: sum.splits)

lemma collectEmails_result: "fst (collectEmails w lg ms acc s) = acc @ retrieved w ms"
proof (induction ms arbitrary: acc s)
  case Nil
  show ?case by (simp add: retrieved_def List.map_filter_simps)
next
  case (Cons m ms)
  show ?case
    by (cases "messages_get w (ref_id m) ''metadata''")
       (simp_all add: call_def retrieved_Cons Cons.IH)
qed

lemma collectEmails_calls:
  "calls (snd (collectEmails w lg ms acc s))
     = calls s @ map (\<lambda>m. MessagesGet (ref_id m) ''metadata'') ms"
proof (induction ms arbitrary: acc s)
  case Nil
  show ?case by simp
next
  case (Cons m ms)
  show ?case
    by (cases "messages_get w (ref_id m) ''metadata''")
       (simp_all add: call_def Cons.IH calls_logger calls_after_call)
qed

lemma retrieved_all:
  assumes "\<forall>m\<in>set ms. messages_get w (ref_id m) ''metadata'' = Inr (g m)"
  shows "retrieved w ms = map (\<lambda>m. summarize_email m (g m)) ms"
  using assms by (induction ms) (simp_all add: retrieved_Cons retrieved_def List.map_filter_simps)

lemma listEmailsTool_returns:
  assumes tok: "fst (getGmailAccessToken w s) = Inr tok"
    and ls: "messages_list w (cap_or_50 (li_maxResults li)) (or_else (li_query li) []) = Inr listed"
  shows "fst (listEmailsTool w lg li s)
           = Inr \<lparr>lio_emails = retrieved w (items_or_empty listed),
                  lio_totalCount = length (retrieved w (items_or_empty listed))\<rparr>"
    and "calls (snd (listEmailsTool w lg li s))
           = calls s @ MessagesList (cap_or_50 (li_maxResults li)) (or_else (li_query li) [])
               # map (\<lambda>m. MessagesGet (ref_id m) ''metadata'') (items_or_empty listed)"
proof -
  obtain c s2 where
    g: "getGmailClient w (logger lg (Info ''[listEmailsTool] Starting email retrieval'') s)
          = (Inr c, s2)" and c2: "calls s2 = calls s"
    using getGmailClient_succeeds[OF tok] by blast
  let ?s3 = "logger lg (Info (''[listEmailsTool] Found ''
                @ show_nat (length (items_or_empty listed)) @ '' emails''))
              (s2\<lparr>trace := trace s2
                 @ [Call (MessagesList (cap_or_50 (li_maxResults li)) (or_else (li_query li) []))]\<rparr>)"
  obtain emails s4 where
    ce: "collectEmails w lg (items_or_empty listed) [] ?s3 = (emails, s4)"
    by (cases "collectEmails w lg (items_or_empty listed) [] ?s3")
  have em: "emails = retrieved w (items_or_empty listed)"
    using collectEmails_result[of w lg "items_or_empty listed" "[]" ?s3] ce by simp
  have c3: "calls ?s3 = calls s @ [MessagesList (cap_or_50 (li_maxResults li)) (or_else (li_query li) [])]"
    by (simp add: calls_logger calls_after_call c2)
  have c4: "calls s4 = calls ?s3 @ map (\<lambda>m. MessagesGet (ref_id m) ''metadata'') (items_or_empty listed)"
    using collectEmails_calls[of w lg "items_or_empty listed" "[]" ?s3] ce by simp
  have r: "listEmailsTool w lg li s
             = (Inr \<lparr>lio_emails = emails, lio_totalCount = length emails\<rparr>,
                logger lg (Info (''[listEmailsTool] Successfully retrieved ''
                                   @ show_nat (length emails) @ '' emails'')) s4)"
    using ce unfolding listEmailsTool_def
    by (simp add: andThen_def tell_def tryCatch_def g ls call_def Let_def succeed_def
        del: show_nat.simps)
  show "fst (listEmailsTool w lg li s)
           = Inr \<lparr>lio_emails = retrieved w (items_or_empty listed),
                  lio_totalCount = length (retrieved w (items_or_empty listed))\<rparr>"
    by (simp add: r em)
  show "calls (snd (listEmailsTool w lg li s))
           = calls s @ MessagesList (cap_or_50 (li_maxResults li)) (or_else (li_query li) [])
               # map (\<lambda>m. MessagesGet (ref_id m) ''metadata'') (items_or_empty listed)"
    by (simp add: r calls_logger c4 calls_after_call c2)
qed

lemma listUpcomingEventsTool_returns:
  assumes tok: "fst (getCalendarAccessToken w s) = Inr tok"
    and ls: "events_list w (cap_or_50 (le_maxResults le))
               (or_else (le_timeMin le) (date_toISOString w)) = Inr items"
  shows "fst (listUpcomingEventsTool w lg le s)
           = Inr \<lparr>leo_events = map summarize_event (items_or_empty items),
                  leo_totalCount = length (items_or_empty items)\<rparr>"
    and "calls (snd (listUpcomingEventsTool w lg le s))
           = calls s @ [EventsList (cap_or_50 (le_maxResults le))
                          (or_else (le_timeMin le) (date_toISOString w))]"
proof -
  obtain c s2 where
    g: "getCalendarClient w (logger lg (Info ''[listUpcomingEventsTool] Listing upcoming events'') s)
          = (Inr c, s2)" and c2: "calls s2 = calls s"
    using getCalendarClient_succeeds[OF tok] by blast
  have r: "listUpcomingEventsTool w lg le s
             = (Inr \<lparr>leo_events = map summarize_event (items_or_empty items),
                  leo_totalCount = length (items_or_empty items)\<rparr>,
                logger lg (Info (''[listUpcomingEventsTool] Found ''
                                   @ show_nat (length (items_or_empty items))
                                   @ '' upcoming events''))
                  (s2\<lparr>trace := trace s2
                     @ [Call (EventsList (cap_or_50 (le_maxResults le))
                          (or_else (le_timeMin le) (date_toISOString w)))]\<rparr>))"
    unfolding listUpcomingEventsTool_def
    by (simp add: andThen_def tell_def tryCatch_def g ls call_def Let_def succeed_def
        del: show_nat.simps)
  show "fst (listUpcomingEventsTool w lg le s)
           = Inr \<lparr>leo_events = map summarize_event (items_or_empty items),
                  leo_totalCount = length (items_or_empty items)\<rparr>"
    by (simp add: r)
  show "calls (snd (listUpcomingEventsTool w lg le s))
           = calls s @ [EventsList (cap_or_50 (le_maxResults le))
                          (or_else (le_timeMin le) (date_toISOString w))]"
    by (simp add: r calls_logger calls_after_call c2)
qed

text \<open>The label tool.\<close>

lemma existingLabel_None:
  "existingLabel labels n = None \<longleftrightarrow> (\<forall>l\<in>set (items_or_empty labels). label_name l \<noteq> Some n)"
  by (cases labels) (auto simp: existingLabel_def items_or_empty_def find_None_iff)

lemma existingLabel_Some:
  "existingLabel labels n = Some l \<Longrightarrow> l \<in> set (items_or_empty labels) \<and> label_name l = Some n"
  by (cases labels) (auto simp: existingLabel_def items_or_empty_def find_Some_iff)

lemma createOrGetLabelTool_existing:
  assumes tok: "fst (getGmailAccessToken w s) = Inr tok"
    and ls: "labels_list w = Inr labels" and old: "existingLabel labels labelName = Some l"
  shows "fst (createOrGetLabelTool w lg labelName s)
           = Inr \<lparr>lo_labelId = label_id l, lo_labelName = labelName, lo_created = False\<rparr>"
    and "calls (snd (createOrGetLabelTool w lg labelName s)) = calls s @ [LabelsList]"
proof -
  obtain c s2 where
    g: "getGmailClient w (logger lg (Info ''[createOrGetLabelTool] Creating/getting label'') s)
          = (Inr c, s2)" and c2: "calls s2 = calls s"
    using getGmailClient_succeeds[OF tok] by blast
  have r: "createOrGetLabelTool w lg labelName s
             = (Inr \<lparr>lo_labelId = label_id l, lo_labelName = labelName, lo_created = False\<rparr>,
                logger lg (Info ''[createOrGetLabelTool] Label already exists'')
                  (s2\<lparr>trace := trace s2 @ [Call LabelsList]\<rparr>))"
    unfolding createOrGetLabelTool_def
    by (simp add: andThen_def tell_def tryCatch_def g ls old call_def succeed_def)
  show "fst (createOrGetLabelTool w lg labelName s)
           = Inr \<lparr>lo_labelId = label_id l, lo_labelName = labelName, lo_created = False\<rparr>"
    by (simp add: r)
  show "calls (snd (createOrGetLabelTool w lg labelName s)) = calls s @ [LabelsList]"
    by (simp add: r calls_logger calls_after_call c2)
qed

lemma createOrGetLabelTool_created:
  assumes tok: "fst (getGmailAccessToken w s) = Inr tok"
    and ls: "labels_list w = Inr labels" and new: "existingLabel labels labelName = None"
    and cr: "labels_create w labelName ''labelShow'' ''show'' = Inr created"
  shows "fst (createOrGetLabelTool w lg labelName s)
           = Inr \<lparr>lo_labelId = label_id created, lo_labelName = labelName, lo_created = True\<rparr>"
    and "calls (snd (createOrGetLabelTool w lg labelName s))
           = calls s @ [LabelsList, LabelsCreate labelName ''labelShow'' ''show'']"
proof -
  obtain c s2 where
    g: "getGmailClient w (logger lg (Info ''[createOrGetLabelTool] Creating/getting label'') s)
          = (Inr c, s2)" and c2: "calls s2 = calls s"
    using getGmailClient_succeeds[OF tok] by blast
  have r: "createOrGetLabelTool w lg labelName s
             = (Inr \<lparr>lo_labelId = label_id created, lo_labelName = labelName, lo_created = True\<rparr>,
                logger lg (Info ''[createOrGetLabelTool] Label created'')
                  (s2\<lparr>trace := trace s2 @ [Call LabelsList]
                           @ [Call (LabelsCreate labelName ''labelShow'' ''show'')]\<rparr>))"
    unfolding createOrGetLabelTool_def
    by (simp add: andThen_def tell_def tryCatch_def g ls new cr call_def succeed_def)
  show "fst (createOrGetLabelTool w lg labelName s)
           = Inr \<lparr>lo_labelId = label_id created, lo_labelName = labelName, lo_created = True\<rparr>"
    by (simp add: r)
  show "calls (snd (createOrGetLabelTool w lg labelName s))
           = calls s @ [LabelsList, LabelsCreate labelName ''labelShow'' ''show'']"
    by (simp add: r calls_logger c2[symmetric]) (simp add: calls_def calls_of_append)
qed

text \<open>The body of a message.\<close>

lemma scanParts_first_plain:
  assumes "find (\<lambda>p. part_mimeType p = Some ''text/plain'' \<and> data_of (part_body p) \<noteq> None) parts
             = Some p"
    and "data_of (part_body p) = Some d"
  shows "scanParts parts body = decodeBody d"
  using assms
proof (induction parts arbitrary: body)
  case Nil
  then show ?case by simp
next
  case (Cons q parts)
  show ?case
  proof (cases "part_mimeType q = Some ''text/plain'' \<and> data_of (part_body q) \<noteq> None")
    case True
    with Cons.prems show ?thesis by (simp add: js_string_def)
  next
    case False
    from Cons.prems(1) False have
      "find (\<lambda>p. part_mimeType p = Some ''text/plain'' \<and> data_of (part_body p) \<noteq> None) parts
         = Some p"
      by (auto split: if_splits)
    from Cons.IH[OF this Cons.prems(2)] False show ?thesis by auto
  qed
qed

lemma data_of_encoded:
  "t \<noteq> [] \<Longrightarrow> data_of (Some \<lparr>body_data = Some (toString_base64 t)\<rparr>) = Some (toString_base64 t)"
  by (cases "map of_char t :: nat list" rule: encode_groups.cases)
     (auto simp: data_of_def truthy_def toString_base64_def)

lemma getEmailContentTool_returns:
  assumes tok: "fst (getGmailAccessToken w s) = Inr tok"
    and m: "messages_get w (Some emailId) ''full'' = Inr emailData"
  shows "returned_body (getEmailContentTool w lg emailId s)
           = Some (extractBody (message_payload emailData))"
proof -
  obtain c s2 where
    g: "getGmailClient w (logger lg (Info ''[getEmailContentTool] Fetching email content'') s)
          = (Inr c, s2)"
    using getGmailClient_succeeds[OF tok] by blast
  show ?thesis
    unfolding getEmailContentTool_def returned_body_def
    by (simp add: andThen_def tell_def tryCatch_def g m call_def succeed_def)
qed

lemma collectEmails_skips:
  assumes "messages_get w (ref_id m) ''metadata'' = Inl err"
  shows "collectEmails w lg (m # ms) emails s
           = collectEmails w lg ms emails
               (logger lg (Warn (''[listEmailsTool] Failed to fetch email '' @ js_string (ref_id m)) err)
                  (s\<lparr>trace := trace s @ [Call (MessagesGet (ref_id m) ''metadata'')]\<rparr>))"
  using assms by (simp add: call_def)

text \<open>
  C4 as stated fails in \<open>listEmailsTool\<close>: the \<open>catch\<close> of lines 334-336 warns and goes
  on. With two messages listed and the metadata request of the first one rejected, the
  tool returns the summary of the second one alone, with \<open>totalCount = 1\<close>.
\<close>

theorem swallowed_failure_counterexample:
  "messages_get flaky (ref_id ref1) ''metadata'' = Inl (ProviderError ''messages.get'')
   \<and> calls (snd (listEmailsTool flaky True two_emails initial_state))
       = [MessagesList 2 [], MessagesGet (ref_id ref1) ''metadata'',
          MessagesGet (ref_id ref2) ''metadata'']
   \<and> fst (listEmailsTool flaky True two_emails initial_state)
       = Inr \<lparr>lio_emails = [summarize_email ref2 (stored plain_first)], lio_totalCount = 1\<rparr>"
  by code_simp

text \<open>
  C4, amended. In each of the seven tools, a failure of the client factory, or a rejection
  of the tool's own client call (\<open>messages.list\<close>; \<open>messages.get\<close> of
  \<open>getEmailContentTool\<close>; \<open>labels.list\<close> and, when reached, \<open>labels.create\<close>;
  \<open>messages.modify\<close>; \<open>drafts.create\<close>; \<open>events.insert\<close>; \<open>events.list\<close>), is the
  failure the tool ends with, and where there is a logger its last action was to log that
  failure. The per-message \<open>messages.get\<close> of \<open>listEmailsTool\<close> is the exception: its
  rejection is logged as a warning, the loop goes on, and the tool returns the summaries of
  the messages whose request resolved, with \<open>totalCount\<close> their number.
\<close>

theorem failures_are_logged_and_rethrown:
  "(fst (getGmailAccessToken w s) = Inl e \<longrightarrow>
      rethrown lg ''[listEmailsTool] Failed to list emails'' e (listEmailsTool w lg li s)
    \<and> rethrown lg ''[getEmailContentTool] Failed to get email content'' e
          (getEmailContentTool w lg emailId s)
    \<and> rethrown lg ''[createOrGetLabelTool] Failed to create/get label'' e
          (createOrGetLabelTool w lg labelName s)
    \<and> rethrown lg ''[addLabelToEmailTool] Failed to add label'' e
          (addLabelToEmailTool w lg emailId labelId s)
    \<and> rethrown lg ''[createDraftReplyTool] Failed to create draft'' e
          (createDraftReplyTool w lg dr s))
   \<and> (fst (getCalendarAccessToken w s) = Inl e \<longrightarrow>
      rethrown lg ''[createCalendarEventTool] Failed to create event'' e
          (createCalendarEventTool w lg ce s)
    \<and> rethrown lg ''[listUpcomingEventsTool] Failed to list events'' e
          (listUpcomingEventsTool w lg le s))
   \<and> (fst (getGmailAccessToken w s) = Inr tok \<longrightarrow>
      (messages_list w (cap_or_50 (li_maxResults li)) (or_else (li_query li) []) = Inl e \<longrightarrow>
         rethrown lg ''[listEmailsTool] Failed to list emails'' e (listEmailsTool w lg li s))
    \<and> (messages_list w (cap_or_50 (li_maxResults li)) (or_else (li_query li) []) = Inr listed \<longrightarrow>
         fst (listEmailsTool w lg li s)
           = Inr \<lparr>lio_emails = retrieved w (items_or_empty listed),
                  lio_totalCount = length (retrieved w (items_or_empty listed))\<rparr>)
    \<and> (messages_get w (Some emailId) ''full'' = Inl e \<longrightarrow>
         rethrown lg ''[getEmailContentTool] Failed to get email content'' e
           (getEmailContentTool w lg emailId s))
    \<and> (labels_list w = Inl e \<longrightarrow>
         rethrown lg ''[createOrGetLabelTool] Failed to create/get label'' e
           (createOrGetLabelTool w lg labelName s))
    \<and> (labels_list w = Inr labels \<and> existingLabel labels labelName = None
          \<and> labels_create w labelName ''labelShow'' ''show'' = Inl e \<longrightarrow>
         rethrown lg ''[createOrGetLabelTool] Failed to create/get label'' e
           (createOrGetLabelTool w lg labelName s))
    \<and> (messages_modify w emailId [labelId] = Inl e \<longrightarrow>
         rethrown lg ''[addLabelToEmailTool] Failed to add label'' e
           (addLabelToEmailTool w lg emailId labelId s))
    \<and> (drafts_create w (encodedMessage dr) (dr_threadId dr) = Inl e \<longrightarrow>
         rethrown lg ''[createDraftReplyTool] Failed to create draft'' e
           (createDraftReplyTool w lg dr s)))
   \<and> (fst (getCalendarAccessToken w s) = Inr tok \<longrightarrow>
      (events_insert w (createCalendarEvent_request ce) = Inl e \<longrightarrow>
         rethrown lg ''[createCalendarEventTool] Failed to create event'' e
           (createCalendarEventTool w lg ce s))
    \<and> (events_list w (cap_or_50 (le_maxResults le))
           (or_else (le_timeMin le) (date_toISOString w)) = Inl e \<longrightarrow>
         rethrown lg ''[listUpcomingEventsTool] Failed to list events'' e
           (listUpcomingEventsTool w lg le s)))
   \<and> (messages_get w (ref_id m) ''metadata'' = Inl e \<longrightarrow>
      collectEmails w lg (m # ms) emails s
        = collectEmails w lg ms emails
            (logger lg (Warn (''[listEmailsTool] Failed to fetch email '' @ js_string (ref_id m)) e)
               (s\<lparr>trace := trace s @ [Call (MessagesGet (ref_id m) ''metadata'')]\<rparr>)))"
  by (intro conjI impI)
     (blast intro: listEmailsTool_client_fails getEmailContentTool_client_fails
        createOrGetLabelTool_client_fails addLabelToEmailTool_client_fails
        createDraftReplyTool_client_fails createCalendarEventTool_client_fails
        listUpcomingEventsTool_client_fails listEmailsTool_call_fails
        listEmailsTool_returns(1) getEmailContentTool_call_fails
        createOrGetLabelTool_call_fails createOrGetLabelTool_create_fails
        addLabelToEmailTool_call_fails createDraftReplyTool_call_fails
        createCalendarEventTool_call_fails listUpcomingEventsTool_call_fails
        collectEmails_skips)+

text \<open>With the connector offline, with the Google API rejecting every call, and with one
  message and label creation failing.\<close>

theorem failures_are_logged_and_rethrown_witness:
  "rethrown True ''[listEmailsTool] Failed to list emails'' (ProviderError ''fetch failed'')
     (listEmailsTool offline True two_emails initial_state)
   \<and> rethrown True ''[createDraftReplyTool] Failed to create draft'' (ProviderError ''fetch failed'')
     (createDraftReplyTool offline True example_reply initial_state)
   \<and> rethrown True ''[createCalendarEventTool] Failed to create event''
     (ProviderError ''fetch failed'') (createCalendarEventTool offline True example_event initial_state)
   \<and> rethrown True ''[listEmailsTool] Failed to list emails'' (ProviderError ''messages.list'')
     (listEmailsTool nested_world True two_emails initial_state)
   \<and> rethrown True ''[getEmailContentTool] Failed to get email content''
     (ProviderError ''messages.get'') (getEmailContentTool nested_world True ''m1'' initial_state)
   \<and> rethrown True ''[createOrGetLabelTool] Failed to create/get label''
     (ProviderError ''labels.list'') (createOrGetLabelTool nested_world True ''Events'' initial_state)
   \<and> rethrown True ''[createOrGetLabelTool] Failed to create/get label''
     (ProviderError ''labels.create'') (createOrGetLabelTool flaky True ''Events'' initial_state)
   \<and> rethrown True ''[addLabelToEmailTool] Failed to add label'' (ProviderError ''messages.modify'')
     (addLabelToEmailTool nested_world True ''m1'' ''INBOX'' initial_state)
   \<and> rethrown True ''[createDraftReplyTool] Failed to create draft'' (ProviderError ''drafts.create'')
     (createDraftReplyTool nested_world True example_reply initial_state)
   \<and> rethrown True ''[createCalendarEventTool] Failed to create event''
     (ProviderError ''events.insert'')
     (createCalendarEventTool nested_world True example_event initial_state)
   \<and> rethrown True ''[listUpcomingEventsTool] Failed to list events'' (ProviderError ''events.list'')
     (listUpcomingEventsTool nested_world True two_events initial_state)
   \<and> fst (listEmailsTool flaky True two_emails initial_state)
       = Inr \<lparr>lio_emails = retrieved flaky [ref1, ref2],
              lio_totalCount = length (retrieved flaky [ref1, ref2])\<rparr>
   \<and> retrieved flaky [ref1, ref2] = [summarize_email ref2 (stored plain_first)]
   \<and> collectEmails flaky True [ref1, ref2] [] initial_state
       = collectEmails flaky True [ref2] []
           (logger True
              (Warn (''[listEmailsTool] Failed to fetch email '' @ js_string (ref_id ref1))
                 (ProviderError ''messages.get''))
              (initial_state\<lparr>trace := trace initial_state
                 @ [Call (MessagesGet (ref_id ref1) ''metadata'')]\<rparr>))"
proof -
  have off_m: "fst (getGmailAccessToken offline initial_state) = Inl (ProviderError ''fetch failed'')"
    and off_c: "fst (getCalendarAccessToken offline initial_state)
                  = Inl (ProviderError ''fetch failed'')"
    by code_simp+
  have on_m: "fst (getGmailAccessToken nested_world initial_state) = Inr (Some ''B'')"
    and on_c: "fst (getCalendarAccessToken nested_world initial_state) = Inr (Some ''B'')"
    and fl_m: "fst (getGmailAccessToken flaky initial_state) = Inr (Some ''B'')"
    by code_simp+
  have h1: "messages_list nested_world (cap_or_50 (li_maxResults two_emails))
              (or_else (li_query two_emails) []) = Inl (ProviderError ''messages.list'')"
    and h2: "messages_get nested_world (Some ''m1'') ''full'' = Inl (ProviderError ''messages.get'')"
    and h3: "labels_list nested_world = Inl (ProviderError ''labels.list'')"
    and h4: "messages_modify nested_world ''m1'' [''INBOX''] = Inl (ProviderError ''messages.modify'')"
    and h5: "drafts_create nested_world (encodedMessage example_reply) (dr_threadId example_reply)
               = Inl (ProviderError ''drafts.create'')"
    and h6: "events_insert nested_world (createCalendarEvent_request example_event)
               = Inl (ProviderError ''events.insert'')"
    and h7: "events_list nested_world (cap_or_50 (le_maxResults two_events))
               (or_else (le_timeMin two_events) (date_toISOString nested_world))
               = Inl (ProviderError ''events.list'')"
    by (simp_all add: nested_world_def offline_def)
  have f1: "messages_list flaky (cap_or_50 (li_maxResults two_emails))
              (or_else (li_query two_emails) []) = Inr (Some [ref1, ref2])"
    by code_simp
  have f2: "labels_list flaky = Inr (Some [\<lparr>label_id = Some ''INBOX'', label_name = Some ''INBOX''\<rparr>])"
    and f3: "labels_create flaky ''Events'' ''labelShow'' ''show'' = Inl (ProviderError ''labels.create'')"
    by (simp_all add: flaky_def connected_def)
  have f4: "existingLabel (Some [\<lparr>label_id = Some ''INBOX'', label_name = Some ''INBOX''\<rparr>]) ''Events''
              = None"
    by code_simp
  have f5: "retrieved flaky [ref1, ref2] = [summarize_email ref2 (stored plain_first)]"
    by code_simp
  note a = failures_are_logged_and_rethrown
    [where w = offline and s = initial_state and e = "ProviderError ''fetch failed''"
       and lg = True and li = two_emails and dr = example_reply and ce = example_event]
  note b = failures_are_logged_and_rethrown
    [where w = nested_world and s = initial_state and tok = "Some ''B''" and lg = True
       and li = two_emails and dr = example_reply and ce = example_event and le = two_events
       and emailId = "''m1''" and labelId = "''INBOX''" and labelName = "''Events''"]
  note c = failures_are_logged_and_rethrown
    [where w = flaky and s = initial_state and tok = "Some ''B''" and lg = True
       and li = two_emails and labelName = "''Events''"
       and e = "ProviderError ''labels.create''" and listed = "Some [ref1, ref2]"
       and labels = "Some [\<lparr>label_id = Some ''INBOX'', label_name = Some ''INBOX''\<rparr>]"]
  have i: "items_or_empty (Some [ref1, ref2]) = [ref1, ref2]"
    by (simp add: items_or_empty_def)
  have f6: "messages_get flaky (ref_id ref1) ''metadata'' = Inl (ProviderError ''messages.get'')"
    by code_simp
  note d = failures_are_logged_and_rethrown
    [where w = flaky and s = initial_state and lg = True and m = ref1 and ms = "[ref2]"
       and emails = "[]" and e = "ProviderError ''messages.get''"]
  show ?thesis
    using a off_m off_c
      b[where e = "ProviderError ''messages.list''"] b[where e = "ProviderError ''messages.get''"]
      b[where e = "ProviderError ''labels.list''"] b[where e = "ProviderError ''messages.modify''"]
      b[where e = "ProviderError ''drafts.create''"] b[where e = "ProviderError ''events.insert''"]
      b[where e = "ProviderError ''events.list''"]
      on_m on_c h1 h2 h3 h4 h5 h6 h7 c fl_m f1 f2 f3 f4 f5 i d f6
    by (simp only: simp_thms)
qed

text \<open>
  C5 as stated fails on two payloads that contain both kinds of part. In a message with an
  attachment the two texts are parts of a part; the loop of lines 395-402 reads the parts
  of the payload only, and the body is empty. In a payload with data in its own body, line
  392 takes that data and the parts are not read.
\<close>

theorem nested_parts_counterexample:
  "payload_parts nested_payload = Some [alternative_part, attachment_part]
   \<and> part_parts alternative_part = Some [plain_part, html_part]
   \<and> decodeBody (js_string (data_of (part_body plain_part))) = ''Hello, world!''
   \<and> messages_get connected (Some ''m4'') ''full'' = Inr (stored nested_payload)
   \<and> returned_body (getEmailContentTool connected True ''m4'' initial_state) = Some []
   \<and> payload_parts both_payload = Some [html_part, plain_part]
   \<and> messages_get connected (Some ''m5'') ''full'' = Inr (stored both_payload)
   \<and> returned_body (getEmailContentTool connected True ''m5'' initial_state)
       = Some ''Top-level text''"
  by code_simp

text \<open>
  C5, amended. When \<open>getEmailContentTool\<close> has its client and the message. A payload that
  has only a top-level body, holding the base64 of a well-formed UTF-8 text \<open>t\<close>, gives the
  body \<open>t\<close>. A payload with no data in its own body, among whose own parts \<open>p\<close> is the
  first \<open>text/plain\<close> part that carries data, gives the decoding of the data of \<open>p\<close>,
  wherever the \<open>text/html\<close> parts stand in the list; that is the text \<open>t\<close> when the data
  is the base64 of a well-formed \<open>t\<close>.
\<close>

theorem body_decoding:
  assumes "fst (getGmailAccessToken w s) = Inr tok"
    and "messages_get w (Some emailId) ''full'' = Inr emailData"
    and "message_payload emailData = Some pl"
  shows "(payload_body pl = Some \<lparr>body_data = Some (toString_base64 t)\<rparr>
            \<and> payload_parts pl = None \<and> wellformed_utf8 t \<longrightarrow>
          returned_body (getEmailContentTool w lg emailId s) = Some t)
       \<and> (data_of (payload_body pl) = None \<and> payload_parts pl = Some parts
            \<and> find (\<lambda>p. part_mimeType p = Some ''text/plain'' \<and> data_of (part_body p) \<noteq> None)
                  parts = Some p
            \<and> data_of (part_body p) = Some d \<longrightarrow>
          returned_body (getEmailContentTool w lg emailId s) = Some (decodeBody d)
          \<and> (d = toString_base64 u \<and> wellformed_utf8 u \<longrightarrow>
               returned_body (getEmailContentTool w lg emailId s) = Some u))"
proof (rule conjI; rule impI)
  assume a: "payload_body pl = Some \<lparr>body_data = Some (toString_base64 t)\<rparr>
               \<and> payload_parts pl = None \<and> wellformed_utf8 t"
  have "extractBody (Some pl) = t"
  proof (cases "t = []")
    case True
    with a show ?thesis
      by (simp add: extractBody_def data_of_def truthy_def toString_base64_def)
  next
    case False
    with a show ?thesis
      by (simp add: extractBody_def data_of_encoded decodeBody_toString_base64)
  qed
  then show "returned_body (getEmailContentTool w lg emailId s) = Some t"
    by (simp add: getEmailContentTool_returns[OF assms(1,2)] assms(3))
next
  assume a: "data_of (payload_body pl) = None \<and> payload_parts pl = Some parts
            \<and> find (\<lambda>p. part_mimeType p = Some ''text/plain'' \<and> data_of (part_body p) \<noteq> None)
                  parts = Some p
            \<and> data_of (part_body p) = Some d"
  then have "scanParts parts [] = decodeBody d"
    by (simp add: scanParts_first_plain)
  with a have "extractBody (Some pl) = decodeBody d"
    by (simp add: extractBody_def)
  then have r: "returned_body (getEmailContentTool w lg emailId s) = Some (decodeBody d)"
    by (simp add: getEmailContentTool_returns[OF assms(1,2)] assms(3))
  then show "returned_body (getEmailContentTool w lg emailId s) = Some (decodeBody d)
          \<and> (d = toString_base64 u \<and> wellformed_utf8 u \<longrightarrow>
               returned_body (getEmailContentTool w lg emailId s) = Some u)"
    by (simp add: decodeBody_toString_base64)
qed

text \<open>A top-level body, and the same two parts in both orders.\<close>

theorem body_decoding_witness:
  "returned_body (getEmailContentTool connected True ''m3'' initial_state) = Some ''Top-level text''
   \<and> returned_body (getEmailContentTool connected True ''m1'' initial_state) = Some ''Hello, world!''
   \<and> returned_body (getEmailContentTool connected True ''m2'' initial_state) = Some ''Hello, world!''
   \<and> payload_parts html_first = Some [html_part, plain_part]
   \<and> payload_parts plain_first = Some [plain_part, html_part]"
proof -
  have tok: "fst (getGmailAccessToken connected initial_state) = Inr (Some ''B'')"
    by code_simp
  have m1: "messages_get connected (Some ''m1'') ''full'' = Inr (stored html_first)"
    and m2: "messages_get connected (Some ''m2'') ''full'' = Inr (stored plain_first)"
    and m3: "messages_get connected (Some ''m3'') ''full'' = Inr (stored top_level_only)"
    by code_simp+
  have p: "message_payload (stored q) = Some q" for q
    by (simp add: stored_def)
  have top: "payload_body top_level_only
               = Some \<lparr>body_data = Some (toString_base64 ''Top-level text'')\<rparr>
             \<and> payload_parts top_level_only = None \<and> wellformed_utf8 ''Top-level text''"
    by code_simp
  have hf: "data_of (payload_body html_first) = None
            \<and> payload_parts html_first = Some [html_part, plain_part]
            \<and> find (\<lambda>p. part_mimeType p = Some ''text/plain'' \<and> data_of (part_body p) \<noteq> None)
                 [html_part, plain_part] = Some plain_part
            \<and> data_of (part_body plain_part) = Some (toString_base64 ''Hello, world!'')"
    by code_simp
  have pf: "data_of (payload_body plain_first) = None
            \<and> payload_parts plain_first = Some [plain_part, html_part]
            \<and> find (\<lambda>p. part_mimeType p = Some ''text/plain'' \<and> data_of (part_body p) \<noteq> None)
                 [plain_part, html_part] = Some plain_part
            \<and> data_of (part_body plain_part) = Some (toString_base64 ''Hello, world!'')"
    by code_simp
  have d: "wellformed_utf8 ''Hello, world!''"
    by code_simp
  have r3: "returned_body (getEmailContentTool connected True ''m3'' initial_state)
              = Some ''Top-level text''"
    using body_decoding[OF tok m3 p, where t = "''Top-level text''" and lg = True,
        THEN conjunct1] top
    by (simp only: simp_thms)
  have r1: "returned_body (getEmailContentTool connected True ''m1'' initial_state)
              = Some ''Hello, world!''"
    using body_decoding[OF tok m1 p, where parts = "[html_part, plain_part]" and p = plain_part
        and d = "toString_base64 ''Hello, world!''" and lg = True and u = "''Hello, world!''",
        THEN conjunct2] hf d
    by blast
  have r2: "returned_body (getEmailContentTool connected True ''m2'' initial_state)
              = Some ''Hello, world!''"
    using body_decoding[OF tok m2 p, where parts = "[plain_part, html_part]" and p = plain_part
        and d = "toString_base64 ''Hello, world!''" and lg = True and u = "''Hello, world!''",
        THEN conjunct2] pf d
    by blast
  show ?thesis
    using r3 r1 r2 hf pf by (simp only: simp_thms)
qed

text \<open>
  C7. When \<open>createOrGetLabelTool\<close> has its client and the list of labels. If a listed
  label has exactly the given name, the tool returns the id of such a label with
  \<open>created = false\<close>, and its only call is the list call. If none has, and the create
  call resolves, the tool returns the new id with \<open>created = true\<close>, and its calls are the
  list call and one create call with \<open>labelShow\<close> and \<open>show\<close>.
\<close>

theorem create_or_get_label:
  assumes "fst (getGmailAccessToken w s) = Inr tok" and "labels_list w = Inr labels"
  shows "((\<exists>l\<in>set (items_or_empty labels). label_name l = Some labelName) \<longrightarrow>
            (\<exists>l\<in>set (items_or_empty labels). label_name l = Some labelName
               \<and> fst (createOrGetLabelTool w lg labelName s)
                   = Inr \<lparr>lo_labelId = label_id l, lo_labelName = labelName, lo_created = False\<rparr>)
            \<and> calls (snd (createOrGetLabelTool w lg labelName s)) = calls s @ [LabelsList])
       \<and> ((\<forall>l\<in>set (items_or_empty labels). label_name l \<noteq> Some labelName)
            \<and> labels_create w labelName ''labelShow'' ''show'' = Inr created \<longrightarrow>
            fst (createOrGetLabelTool w lg labelName s)
              = Inr \<lparr>lo_labelId = label_id created, lo_labelName = labelName, lo_created = True\<rparr>
            \<and> calls (snd (createOrGetLabelTool w lg labelName s))
                = calls s @ [LabelsList, LabelsCreate labelName ''labelShow'' ''show''])"
proof (rule conjI; rule impI)
  assume "\<exists>l\<in>set (items_or_empty labels). label_name l = Some labelName"
  then have "existingLabel labels labelName \<noteq> None"
    by (simp add: existingLabel_None)
  then obtain l where l: "existingLabel labels labelName = Some l"
    by blast
  from existingLabel_Some[OF l] createOrGetLabelTool_existing[OF assms l, of lg]
  show "(\<exists>l\<in>set (items_or_empty labels). label_name l = Some labelName
               \<and> fst (createOrGetLabelTool w lg labelName s)
                   = Inr \<lparr>lo_labelId = label_id l, lo_labelName = labelName, lo_created = False\<rparr>)
            \<and> calls (snd (createOrGetLabelTool w lg labelName s)) = calls s @ [LabelsList]"
    by blast
next
  assume a: "(\<forall>l\<in>set (items_or_empty labels). label_name l \<noteq> Some labelName)
            \<and> labels_create w labelName ''labelShow'' ''show'' = Inr created"
  then have n: "existingLabel labels labelName = None"
    by (simp add: existingLabel_None)
  from a have c: "labels_create w labelName ''labelShow'' ''show'' = Inr created"
    by simp
  from createOrGetLabelTool_created[OF assms n c, of lg]
  show "fst (createOrGetLabelTool w lg labelName s)
              = Inr \<lparr>lo_labelId = label_id created, lo_labelName = labelName, lo_created = True\<rparr>
            \<and> calls (snd (createOrGetLabelTool w lg labelName s))
                = calls s @ [LabelsList, LabelsCreate labelName ''labelShow'' ''show'']"
    by simp
qed

text \<open>Names are compared exactly: \<open>INBOX\<close> is found, \<open>inbox\<close> is created.\<close>

theorem create_or_get_label_witness:
  "fst (createOrGetLabelTool connected True ''INBOX'' initial_state)
     = Inr \<lparr>lo_labelId = Some ''INBOX'', lo_labelName = ''INBOX'', lo_created = False\<rparr>
   \<and> calls (snd (createOrGetLabelTool connected True ''INBOX'' initial_state)) = [LabelsList]
   \<and> fst (createOrGetLabelTool connected True ''inbox'' initial_state)
     = Inr \<lparr>lo_labelId = Some ''Label_1'', lo_labelName = ''inbox'', lo_created = True\<rparr>
   \<and> calls (snd (createOrGetLabelTool connected True ''inbox'' initial_state))
     = [LabelsList, LabelsCreate ''inbox'' ''labelShow'' ''show'']"
proof -
  have tok: "fst (getGmailAccessToken connected initial_state) = Inr (Some ''B'')"
    by code_simp
  have ls: "labels_list connected
              = Inr (Some [\<lparr>label_id = Some ''INBOX'', label_name = Some ''INBOX''\<rparr>])"
    by (simp add: connected_def)
  have cr: "labels_create connected ''inbox'' ''labelShow'' ''show''
              = Inr \<lparr>label_id = Some ''Label_1'', label_name = Some ''inbox''\<rparr>"
    by (simp add: connected_def)
  have c0: "calls initial_state = []"
    by (simp add: calls_def initial_state_def)
  show ?thesis
    using create_or_get_label[OF tok ls, where labelName = "''INBOX''" and lg = True]
      create_or_get_label[OF tok ls, where labelName = "''inbox''" and lg = True
        and created = "\<lparr>label_id = Some ''Label_1'', label_name = Some ''inbox''\<rparr>"]
      cr c0
    by (simp add: items_or_empty_def)
qed

text \<open>
  C8. When a list tool has its client, the list call resolves and, for mail, so does the
  metadata request of every listed message: the tool returns one summary per listed item,
  in order, and \<open>totalCount\<close> is their number (two for two items, zero and the empty
  list for none). When no cap is given, the list call is issued with the cap 50.
\<close>

theorem list_tools_count:
  "(fst (getGmailAccessToken w s) = Inr tok
      \<and> messages_list w (cap_or_50 (li_maxResults li)) (or_else (li_query li) []) = Inr listed
      \<and> (\<forall>m\<in>set (items_or_empty listed). messages_get w (ref_id m) ''metadata'' = Inr (g m)) \<longrightarrow>
    fst (listEmailsTool w lg li s)
      = Inr \<lparr>lio_emails = map (\<lambda>m. summarize_email m (g m)) (items_or_empty listed),
             lio_totalCount = length (items_or_empty listed)\<rparr>
    \<and> (li_maxResults li = None \<longrightarrow>
          calls (snd (listEmailsTool w lg li s))
            = calls s @ MessagesList 50 (or_else (li_query li) [])
                # map (\<lambda>m. MessagesGet (ref_id m) ''metadata'') (items_or_empty listed)))
   \<and> (fst (getCalendarAccessToken w s) = Inr tok
      \<and> events_list w (cap_or_50 (le_maxResults le))
           (or_else (le_timeMin le) (date_toISOString w)) = Inr items \<longrightarrow>
    fst (listUpcomingEventsTool w lg le s)
      = Inr \<lparr>leo_events = map summarize_event (items_or_empty items),
             leo_totalCount = length (items_or_empty items)\<rparr>
    \<and> (le_maxResults le = None \<longrightarrow>
          calls (snd (listUpcomingEventsTool w lg le s))
            = calls s @ [EventsList 50 (or_else (le_timeMin le) (date_toISOString w))]))"
proof (rule conjI; rule impI)
  assume a: "fst (getGmailAccessToken w s) = Inr tok
      \<and> messages_list w (cap_or_50 (li_maxResults li)) (or_else (li_query li) []) = Inr listed
      \<and> (\<forall>m\<in>set (items_or_empty listed). messages_get w (ref_id m) ''metadata'' = Inr (g m))"
  then have tok: "fst (getGmailAccessToken w s) = Inr tok"
    and ls: "messages_list w (cap_or_50 (li_maxResults li)) (or_else (li_query li) []) = Inr listed"
    and all: "\<forall>m\<in>set (items_or_empty listed). messages_get w (ref_id m) ''metadata'' = Inr (g m)"
    by simp_all
  have r: "retrieved w (items_or_empty listed)
             = map (\<lambda>m. summarize_email m (g m)) (items_or_empty listed)"
    by (rule retrieved_all[OF all])
  show "fst (listEmailsTool w lg li s)
      = Inr \<lparr>lio_emails = map (\<lambda>m. summarize_email m (g m)) (items_or_empty listed),
             lio_totalCount = length (items_or_empty listed)\<rparr>
    \<and> (li_maxResults li = None \<longrightarrow>
          calls (snd (listEmailsTool w lg li s))
            = calls s @ MessagesList 50 (or_else (li_query li) [])
                # map (\<lambda>m. MessagesGet (ref_id m) ''metadata'') (items_or_empty listed))"
    using listEmailsTool_returns[OF tok ls, of lg] r
    by (simp add: cap_or_50_def)
next
  assume a: "fst (getCalendarAccessToken w s) = Inr tok
      \<and> events_list w (cap_or_50 (le_maxResults le))
           (or_else (le_timeMin le) (date_toISOString w)) = Inr items"
  then have tok: "fst (getCalendarAccessToken w s) = Inr tok"
    and ls: "events_list w (cap_or_50 (le_maxResults le))
           (or_else (le_timeMin le) (date_toISOString w)) = Inr items"
    by simp_all
  show "fst (listUpcomingEventsTool w lg le s)
      = Inr \<lparr>leo_events = map summarize_event (items_or_empty items),
             leo_totalCount = length (items_or_empty items)\<rparr>
    \<and> (le_maxResults le = None \<longrightarrow>
          calls (snd (listUpcomingEventsTool w lg le s))
            = calls s @ [EventsList 50 (or_else (le_timeMin le) (date_toISOString w))])"
    using listUpcomingEventsTool_returns[OF tok ls, of lg]
    by (simp add: cap_or_50_def)
qed

text \<open>A cap of two with two items, with no items, and no cap given.\<close>

theorem list_tools_count_witness:
  "fst (listEmailsTool connected True two_emails initial_state)
     = Inr \<lparr>lio_emails = [summarize_email ref1 (stored html_first),
                          summarize_email ref2 (stored plain_first)],
            lio_totalCount = 2\<rparr>
   \<and> fst (listEmailsTool connected_empty True two_emails initial_state)
     = Inr \<lparr>lio_emails = [], lio_totalCount = 0\<rparr>
   \<and> fst (listUpcomingEventsTool connected True two_events initial_state)
     = Inr \<lparr>leo_events = [summarize_event event1, summarize_event event2], leo_totalCount = 2\<rparr>
   \<and> fst (listUpcomingEventsTool connected_empty True two_events initial_state)
     = Inr \<lparr>leo_events = [], leo_totalCount = 0\<rparr>
   \<and> calls (snd (listEmailsTool connected True default_emails initial_state))
     = [MessagesList 50 ''is:unread'', MessagesGet (Some ''m1'') ''metadata'',
        MessagesGet (Some ''m2'') ''metadata'']
   \<and> calls (snd (listUpcomingEventsTool connected True default_events initial_state))
     = [EventsList 50 ''2026-11-01T00:00:00Z'']"
proof -
  have tok: "fst (getGmailAccessToken connected initial_state) = Inr (Some ''B'')"
    "fst (getCalendarAccessToken connected initial_state) = Inr (Some ''B'')"
    "fst (getGmailAccessToken connected_empty initial_state) = Inr (Some ''B'')"
    "fst (getCalendarAccessToken connected_empty initial_state) = Inr (Some ''B'')"
    by code_simp+
  have m: "messages_list connected (cap_or_50 (li_maxResults two_emails))
             (or_else (li_query two_emails) []) = Inr (Some [ref1, ref2])"
    "messages_list connected (cap_or_50 (li_maxResults default_emails))
             (or_else (li_query default_emails) []) = Inr (Some [ref1, ref2])"
    "messages_list connected_empty (cap_or_50 (li_maxResults two_emails))
             (or_else (li_query two_emails) []) = Inr (Some [])"
    by code_simp+
  have e: "events_list connected (cap_or_50 (le_maxResults two_events))
             (or_else (le_timeMin two_events) (date_toISOString connected))
             = Inr (Some [event1, event2])"
    "events_list connected (cap_or_50 (le_maxResults default_events))
             (or_else (le_timeMin default_events) (date_toISOString connected))
             = Inr (Some [event1, event2])"
    "events_list connected_empty (cap_or_50 (le_maxResults two_events))
             (or_else (le_timeMin two_events) (date_toISOString connected_empty)) = Inr None"
    by code_simp+
  let ?g = "\<lambda>m. if m = ref1 then stored html_first else stored plain_first"
  have g: "\<forall>m\<in>set (items_or_empty (Some [ref1, ref2])).
             messages_get connected (ref_id m) ''metadata'' = Inr (?g m)"
    by (simp add: items_or_empty_def connected_def example_get_def ref1_def ref2_def)
  have g0: "\<forall>m\<in>set (items_or_empty (Some [])).
             messages_get connected_empty (ref_id m) ''metadata'' = Inr (?g m)"
    by (simp add: items_or_empty_def)
  have d: "li_maxResults default_emails = None" "le_maxResults default_events = None"
    "or_else (li_query default_emails) [] = ''is:unread''"
    "or_else (le_timeMin default_events) (date_toISOString connected) = ''2026-11-01T00:00:00Z''"
    "ref_id ref1 = Some ''m1''" "ref_id ref2 = Some ''m2''" "ref1 \<noteq> ref2"
    "calls initial_state = []"
    by code_simp+
  show ?thesis
    using list_tools_count[where w = connected and s = initial_state and tok = "Some ''B''"
        and li = two_emails and listed = "Some [ref1, ref2]" and g = ?g and lg = True
        and le = two_events and items = "Some [event1, event2]"]
      list_tools_count[where w = connected_empty and s = initial_state and tok = "Some ''B''"
        and li = two_emails and listed = "Some []" and g = ?g and lg = True
        and le = two_events and items = None]
      list_tools_count[where w = connected and s = initial_state and tok = "Some ''B''"
        and li = default_emails and listed = "Some [ref1, ref2]" and g = ?g and lg = True
        and le = default_events and items = "Some [event1, event2]"]
      tok m e g g0 d
    by (simp add: items_or_empty_def)
qed

text \<open>The raw message of a draft.\<close>

lemma nonempty_lines:
  "filter (\<lambda>l. l \<noteq> []) (messageLines ctx)
     = [''To: '' @ dr_to ctx, ''Subject: '' @ dr_subject ctx,
        ''Content-Type: text/plain; charset=utf-8'']
       @ (case truthy (dr_inReplyTo ctx) of Some r \<Rightarrow> [''In-Reply-To: '' @ r] | None \<Rightarrow> [])
       @ (if dr_body ctx = [] then [] else [dr_body ctx])"
  by (simp add: messageLines_def split: option.splits)

lemma rawMessage_headerBlock:
  "rawMessage ctx = headerBlock ctx @ (if dr_body ctx = [] then [] else CRLF @ dr_body ctx)"
  by (simp add: rawMessage_def headerBlock_def messageLines_def split: option.splits)

lemma createDraftReplyTool_calls:
  assumes tok: "fst (getGmailAccessToken w s) = Inr tok"
  shows "calls (snd (createDraftReplyTool w lg ctx s))
           = calls s @ [DraftsCreate (encodedMessage ctx) (dr_threadId ctx)]"
proof -
  obtain c s2 where
    g: "getGmailClient w (logger lg (Info ''[createDraftReplyTool] Creating draft reply'') s)
          = (Inr c, s2)" and c2: "calls s2 = calls s"
    using getGmailClient_succeeds[OF tok] by blast
  show ?thesis
    unfolding createDraftReplyTool_def
    by (cases "drafts_create w (encodedMessage ctx) (dr_threadId ctx)")
       (simp_all add: andThen_def tell_def tryCatch_def g call_def succeed_def calls_logger
          calls_after_call c2)
qed

text \<open>
  C10. For every input of \<open>createDraftReplyTool\<close>: the lines that survive the filter are
  the three fixed headers, the In-Reply-To line when one is given, and the body when it is
  not empty; the empty separator never survives. The raw message is therefore the header
  block, one CRLF and the body, and not the header block, a blank line and the body. What
  the tool sends is the base64url of the raw message, which decodes to it.
\<close>

theorem draft_raw_message:
  "filter (\<lambda>l. l \<noteq> []) (messageLines ctx)
     = [''To: '' @ dr_to ctx, ''Subject: '' @ dr_subject ctx,
        ''Content-Type: text/plain; charset=utf-8'']
       @ (case truthy (dr_inReplyTo ctx) of Some r \<Rightarrow> [''In-Reply-To: '' @ r] | None \<Rightarrow> [])
       @ (if dr_body ctx = [] then [] else [dr_body ctx])
   \<and> rawMessage ctx = headerBlock ctx @ (if dr_body ctx = [] then [] else CRLF @ dr_body ctx)
   \<and> (dr_body ctx \<noteq> [] \<longrightarrow> rawMessage ctx \<noteq> headerBlock ctx @ CRLF @ CRLF @ dr_body ctx)
   \<and> from_base64 (encodedMessage ctx) = rawMessage ctx
   \<and> (fst (getGmailAccessToken w s) = Inr tok \<longrightarrow>
        calls (snd (createDraftReplyTool w lg ctx s))
          = calls s @ [DraftsCreate (base64url (rawMessage ctx)) (dr_threadId ctx)])"
proof -
  have "rawMessage ctx \<noteq> headerBlock ctx @ CRLF @ CRLF @ dr_body ctx" if "dr_body ctx \<noteq> []"
  proof
    assume "rawMessage ctx = headerBlock ctx @ CRLF @ CRLF @ dr_body ctx"
    then have "length (rawMessage ctx) = length (headerBlock ctx @ CRLF @ CRLF @ dr_body ctx)"
      by simp
    with that show False
      by (simp add: rawMessage_headerBlock CRLF_def)
  qed
  then show ?thesis
    using createDraftReplyTool_calls[of w s tok lg ctx]
    by (simp add: nonempty_lines rawMessage_headerBlock[symmetric] encodedMessage_def
        from_base64_base64url)
qed

theorem draft_raw_message_witness:
  "rawMessage example_reply
     = ''To: ann@example.org'' @ CRLF @ ''Subject: Re: Town hall'' @ CRLF
       @ ''Content-Type: text/plain; charset=utf-8'' @ CRLF
       @ ''In-Reply-To: <m1@example.org>'' @ CRLF @ ''See you there.''
   \<and> calls (snd (createDraftReplyTool connected True example_reply initial_state))
       = [DraftsCreate (base64url (rawMessage example_reply)) ''t1'']
   \<and> base64url (rawMessage example_reply)
       = ''VG86IGFubkBleGFtcGxlLm9yZw0KU3ViamVjdDogUmU6IFRvd24gaGFsbA0KQ29udGVudC1UeXBlOiB0''
           @ ''ZXh0L3BsYWluOyBjaGFyc2V0PXV0Zi04DQpJbi1SZXBseS1UbzogPG0xQGV4YW1wbGUub3JnPg0KU2Vl''
           @ ''IHlvdSB0aGVyZS4''"
proof -
  have tok: "fst (getGmailAccessToken connected initial_state) = Inr (Some ''B'')"
    by code_simp
  have b: "dr_body example_reply \<noteq> []" "dr_body example_reply = ''See you there.''"
    "dr_threadId example_reply = ''t1''" "calls initial_state = []"
    "headerBlock example_reply
      = ''To: ann@example.org'' @ CRLF @ ''Subject: Re: Town hall'' @ CRLF
       @ ''Content-Type: text/plain; charset=utf-8'' @ CRLF
       @ ''In-Reply-To: <m1@example.org>''"
    by code_simp+
  have v: "base64url (rawMessage example_reply)
       = ''VG86IGFubkBleGFtcGxlLm9yZw0KU3ViamVjdDogUmU6IFRvd24gaGFsbA0KQ29udGVudC1UeXBlOiB0''
           @ ''ZXh0L3BsYWluOyBjaGFyc2V0PXV0Zi04DQpJbi1SZXBseS1UbzogPG0xQGV4YW1wbGUub3JnPg0KU2Vl''
           @ ''IHlvdSB0aGVyZS4''"
    by code_simp
  show ?thesis
    using draft_raw_message[where ctx = example_reply and w = connected and s = initial_state
        and tok = "Some ''B''" and lg = True] tok b v
    by simp
qed


end
